theory Spec2Isabelle
  imports Complex_Main
begin

chapter \<open>Bookkeeping of embedding fine-tuning: session features and experiment tracking\<close>

text \<open>
  A shallow embedding of \<open>SessionFeatures\<close> (\<open>session_features.py\<close>), of
  \<open>ExperimentsManager\<close> (\<open>experiments_tracker.py\<close>) and of the sweep in
  \<open>finetune_embedding.py\<close> and \<open>finetune_embedding_one_param.py\<close>. Methods that
  mutate an object return the object as they leave it together with the exception they
  raised, if any. The first part of the theory holds the model, the second the
  properties proved of it.
\<close>

section \<open>Python values, exceptions and statements\<close>

text \<open>
  The exceptions the modelled code can raise. \<open>KeyboardInterrupt\<close> stands for the
  exceptions that do not derive from Python's \<open>Exception\<close> class; \<open>Exception\<close> is
  any other exception (a failed training step, a network error).
\<close>

datatype error =
  TypeError | ValueError | RuntimeError | IndexError | KeyError | AttributeError
  | MlflowException | Exception | KeyboardInterrupt

text \<open>
  A value stored in a field of \<open>SessionFeatures\<close>: a one-dimensional \<open>torch.Tensor\<close>
  (its elements idealised as reals) or some Python object that is not a tensor. Of the
  latter the model only uses that \<open>isinstance(x, torch.Tensor)\<close> is false and that it
  supports none of the tensor operations.
\<close>

datatype pyobj = Tensor "real list" | NonTensor

text \<open>
  A method that mutates \<open>self\<close> and may raise is a function from the object to the
  exception raised (if any) and the object as the method leaves it: Python does not
  undo the assignments made before a \<open>raise\<close>.
\<close>

type_synonym 's stmt = "'s \<Rightarrow> error option \<times> 's"

fun exec :: "'s stmt list \<Rightarrow> 's stmt" where
  "exec [] s = (None, s)"
| "exec (c # cs) s = (case c s of (None, s') \<Rightarrow> exec cs s' | (Some e, s') \<Rightarrow> (Some e, s'))"

definition assign :: "('v \<Rightarrow> 's \<Rightarrow> 's) \<Rightarrow> ('s \<Rightarrow> error + 'v) \<Rightarrow> 's stmt" where
  "assign upd rhs s = (case rhs s of Inl e \<Rightarrow> (Some e, s) | Inr v \<Rightarrow> (None, upd v s))"

definition call :: "('s \<Rightarrow> error option) \<Rightarrow> 's stmt" where
  "call chk s = (chk s, s)"

section \<open>Tensor operations used by SessionFeatures\<close>

definition isinstance_Tensor :: "pyobj \<Rightarrow> bool" where
  "isinstance_Tensor x = (case x of Tensor xs \<Rightarrow> True | NonTensor \<Rightarrow> False)"

definition py_len :: "pyobj \<Rightarrow> error + nat" where
  "py_len x = (case x of Tensor xs \<Rightarrow> Inr (length xs) | NonTensor \<Rightarrow> Inl TypeError)"

text \<open>\<open>torch.cat([a, b])\<close> of one-dimensional tensors.\<close>

definition torch_cat :: "pyobj \<Rightarrow> pyobj \<Rightarrow> error + pyobj" where
  "torch_cat a b =
     (case a of
        Tensor xs \<Rightarrow> (case b of Tensor ys \<Rightarrow> Inr (Tensor (xs @ ys)) | NonTensor \<Rightarrow> Inl TypeError)
      | NonTensor \<Rightarrow> Inl TypeError)"

text \<open>
  \<open>a - b\<close> of one-dimensional tensors: elementwise on equal sizes, a tensor of size one
  is broadcast, any other pair of sizes raises \<open>RuntimeError\<close>.
\<close>

definition tensor_sub :: "pyobj \<Rightarrow> pyobj \<Rightarrow> error + real list" where
  "tensor_sub a b =
     (case a of
        Tensor xs \<Rightarrow>
          (case b of
             Tensor ys \<Rightarrow>
               if length xs = length ys then Inr (map2 (-) xs ys)
               else if length xs = 1 then Inr (map (\<lambda>y. hd xs - y) ys)
               else if length ys = 1 then Inr (map (\<lambda>x. x - hd ys) xs)
               else Inl RuntimeError
           | NonTensor \<Rightarrow> Inl TypeError)
      | NonTensor \<Rightarrow> Inl TypeError)"

text \<open>\<open>x[mask]\<close> with a boolean mask: the elements of \<open>x\<close> where the mask is true.\<close>

definition select :: "'a list \<Rightarrow> bool list \<Rightarrow> 'a list" where
  "select xs keep = map fst (filter snd (zip xs keep))"

definition getitem_mask :: "pyobj option \<Rightarrow> bool list \<Rightarrow> error + pyobj" where
  "getitem_mask x keep =
     (case x of
        None \<Rightarrow> Inl TypeError
      | Some NonTensor \<Rightarrow> Inl TypeError
      | Some (Tensor xs) \<Rightarrow>
          if length keep = length xs then Inr (Tensor (select xs keep)) else Inl IndexError)"

text \<open>\<open>x.shape[0]\<close> and the slice \<open>x[:k]\<close>.\<close>

definition shape0 :: "pyobj option \<Rightarrow> error + nat" where
  "shape0 x =
     (case x of
        None \<Rightarrow> Inl AttributeError
      | Some NonTensor \<Rightarrow> Inl AttributeError
      | Some (Tensor xs) \<Rightarrow> Inr (length xs))"

definition getitem_upto :: "pyobj option \<Rightarrow> nat \<Rightarrow> error + pyobj" where
  "getitem_upto x k =
     (case x of
        None \<Rightarrow> Inl TypeError
      | Some NonTensor \<Rightarrow> Inl TypeError
      | Some (Tensor xs) \<Rightarrow> Inr (Tensor (take k xs)))"

section \<open>SessionFeatures\<close>

record session_features =
  positive_ranks :: "pyobj option"
  negative_ranks :: "pyobj option"
  target :: "pyobj option"
  positive_confidences :: "pyobj option"
  negative_confidences :: "pyobj option"

datatype attr =
  Positive_ranks | Negative_ranks | Target | Positive_confidences | Negative_confidences

definition attrs :: "attr list" where
  "attrs = [Positive_ranks, Negative_ranks, Target, Positive_confidences, Negative_confidences]"

fun get_attr :: "attr \<Rightarrow> session_features \<Rightarrow> pyobj option" where
  "get_attr Positive_ranks self = positive_ranks self"
| "get_attr Negative_ranks self = negative_ranks self"
| "get_attr Target self = target self"
| "get_attr Positive_confidences self = positive_confidences self"
| "get_attr Negative_confidences self = negative_confidences self"

fun put_attr :: "attr \<Rightarrow> pyobj option \<Rightarrow> session_features \<Rightarrow> session_features" where
  "put_attr Positive_ranks v self = self\<lparr>positive_ranks := v\<rparr>"
| "put_attr Negative_ranks v self = self\<lparr>negative_ranks := v\<rparr>"
| "put_attr Target v self = self\<lparr>target := v\<rparr>"
| "put_attr Positive_confidences v self = self\<lparr>positive_confidences := v\<rparr>"
| "put_attr Negative_confidences v self = self\<lparr>negative_confidences := v\<rparr>"

subsection \<open>The two checks\<close>

definition not_tensor :: "pyobj option \<Rightarrow> bool" where
  "not_tensor x = (x \<noteq> None \<and> \<not> isinstance_Tensor (the x))"

definition check_types :: "session_features \<Rightarrow> error option" where
  "check_types self =
     (if not_tensor (positive_ranks self) then Some TypeError
      else if not_tensor (negative_ranks self) then Some TypeError
      else if not_tensor (target self) then Some TypeError
      else if not_tensor (positive_confidences self) then Some TypeError
      else if not_tensor (negative_confidences self) then Some TypeError
      else None)"

fun lens :: "pyobj list \<Rightarrow> error + nat list" where
  "lens [] = Inr []"
| "lens (x # xs) =
     (case py_len x of
        Inl e \<Rightarrow> Inl e
      | Inr n \<Rightarrow> (case lens xs of Inl e \<Rightarrow> Inl e | Inr ns \<Rightarrow> Inr (n # ns)))"

text \<open>
  \<open>length_set\<close> is the set of \<open>len(x)\<close> over the fields that are not \<open>None\<close>; its size
  is the number of distinct lengths.
\<close>

definition check_lengths :: "session_features \<Rightarrow> error option" where
  "check_lengths self =
     (case lens (List.map_filter (\<lambda>x. x)
                  [positive_ranks self, negative_ranks self, target self,
                   positive_confidences self, negative_confidences self]) of
        Inl e \<Rightarrow> Some e
      | Inr length_set \<Rightarrow> if length (remdups length_set) > 1 then Some ValueError else None)"

subsection \<open>Construction and the property setters\<close>

definition session_features_init ::
  "pyobj option \<Rightarrow> pyobj option \<Rightarrow> pyobj option \<Rightarrow> pyobj option \<Rightarrow> pyobj option
     \<Rightarrow> error + session_features" where
  "session_features_init pr nr t pc nc =
     (case exec [call check_types, call check_lengths]
             \<lparr>positive_ranks = pr, negative_ranks = nr, target = t,
              positive_confidences = pc, negative_confidences = nc\<rparr> of
        (Some e, self) \<Rightarrow> Inl e
      | (None, self) \<Rightarrow> Inr self)"

text \<open>
  Each of the five setters stores the value, then runs both checks; \<open>setter a\<close> is the
  setter of the property \<open>a\<close>.
\<close>

definition setter :: "attr \<Rightarrow> pyobj option \<Rightarrow> session_features stmt" where
  "setter a v = exec [(\<lambda>self. (None, put_attr a v self)), call check_types, call check_lengths]"

subsection \<open>Accumulation\<close>

text \<open>
  \<open>_accumulate\<close> has two branches and no \<open>else\<close>: when \<open>other_var\<close> is \<open>None\<close> the
  function falls off its end and returns \<open>None\<close>.
\<close>

fun accumulate :: "pyobj option \<Rightarrow> pyobj option \<Rightarrow> error + pyobj option" where
  "accumulate (Some a) (Some b) =
     (case torch_cat a b of Inl e \<Rightarrow> Inl e | Inr t \<Rightarrow> Inr (Some t))"
| "accumulate None (Some b) = Inr (Some b)"
| "accumulate self_var None = Inr None"

definition iadd :: "session_features \<Rightarrow> session_features stmt" where
  "iadd other =
     exec
      [assign (\<lambda>v s. s\<lparr>positive_ranks := v\<rparr>)
         (\<lambda>s. accumulate (positive_ranks s) (positive_ranks other)),
       assign (\<lambda>v s. s\<lparr>negative_ranks := v\<rparr>)
         (\<lambda>s. accumulate (negative_ranks s) (negative_ranks other)),
       assign (\<lambda>v s. s\<lparr>target := v\<rparr>)
         (\<lambda>s. accumulate (target s) (target other)),
       assign (\<lambda>v s. s\<lparr>positive_confidences := v\<rparr>)
         (\<lambda>s. accumulate (positive_confidences s) (positive_confidences other)),
       assign (\<lambda>v s. s\<lparr>negative_confidences := v\<rparr>)
         (\<lambda>s. accumulate (negative_confidences s) (negative_confidences other)),
       call check_types,
       call check_lengths]"

subsection \<open>Filtering by rank difference\<close>

text \<open>
  The mask \<open>examples\<close>: \<open>hard_examples\<close> and \<open>smooth_examples\<close> compare the
  absolute rank differences with the two bounds, \<open>torch.logical_and\<close> joins them.
\<close>

definition examples :: "real \<Rightarrow> real \<Rightarrow> real list \<Rightarrow> bool list" where
  "examples mn mx diff =
     (let hard_examples = map (\<lambda>d. \<bar>d\<bar> > mn) diff;
          smooth_examples = map (\<lambda>d. \<bar>d\<bar> < mx) diff
      in map2 (\<and>) hard_examples smooth_examples)"

definition clamp_diff_in :: "real \<Rightarrow> real \<Rightarrow> session_features stmt" where
  "clamp_diff_in mn mx self =
     (if positive_ranks self \<noteq> None \<and> negative_ranks self \<noteq> None then
        (case tensor_sub (the (positive_ranks self)) (the (negative_ranks self)) of
           Inl e \<Rightarrow> (Some e, self)
         | Inr diff \<Rightarrow>
             exec
              [assign (\<lambda>v s. s\<lparr>positive_ranks := Some v\<rparr>)
                 (\<lambda>s. getitem_mask (positive_ranks s) (examples mn mx diff)),
               assign (\<lambda>v s. s\<lparr>negative_ranks := Some v\<rparr>)
                 (\<lambda>s. getitem_mask (negative_ranks s) (examples mn mx diff)),
               assign (\<lambda>v s. s\<lparr>target := Some v\<rparr>)
                 (\<lambda>s. getitem_mask (target s) (examples mn mx diff)),
               assign (\<lambda>v s. s\<lparr>positive_confidences := Some v\<rparr>)
                 (\<lambda>s. getitem_mask (positive_confidences s) (examples mn mx diff)),
               assign (\<lambda>v s. s\<lparr>negative_confidences := Some v\<rparr>)
                 (\<lambda>s. getitem_mask (negative_confidences s) (examples mn mx diff)),
               call check_lengths] self)
      else (None, self))"

subsection \<open>Borrowing positives from another session\<close>

text \<open>
  The last four statements of \<open>use_positive_from\<close>, common to its three branches;
  \<open>positive_ranks_\<close> is the local variable the branch has set.
\<close>

definition use_positive_tail ::
  "session_features \<Rightarrow> pyobj option \<Rightarrow> session_features stmt list" where
  "use_positive_tail other positive_ranks' =
     [assign (\<lambda>v s. s\<lparr>positive_confidences := v\<rparr>) (\<lambda>s. Inr (positive_ranks other)),
      assign (\<lambda>v s. s\<lparr>positive_ranks := v\<rparr>) (\<lambda>s. Inr positive_ranks'),
      call check_types,
      call check_lengths]"

definition use_positive_from :: "session_features \<Rightarrow> session_features stmt" where
  "use_positive_from other self =
     (case exec [call (\<lambda>s. check_types other), call (\<lambda>s. check_lengths other)] self of
        (Some e, s) \<Rightarrow> (Some e, s)
      | (None, s) \<Rightarrow>
     (case shape0 (negative_ranks self) of
        Inl e \<Rightarrow> (Some e, self)
      | Inr n_neg \<Rightarrow>
     (case shape0 (positive_ranks other) of
        Inl e \<Rightarrow> (Some e, self)
      | Inr n_pos \<Rightarrow>
          if n_neg < n_pos then
            (case getitem_upto (positive_ranks other) n_neg of
               Inl e \<Rightarrow> (Some e, self)
             | Inr v \<Rightarrow> exec (use_positive_tail other (Some v)) self)
          else if n_neg > n_pos then
            exec
             ([assign (\<lambda>v s. s\<lparr>negative_ranks := Some v\<rparr>)
                 (\<lambda>s. getitem_upto (negative_ranks s) n_pos),
               assign (\<lambda>v s. s\<lparr>target := Some v\<rparr>)
                 (\<lambda>s. getitem_upto (target s) n_pos),
               assign (\<lambda>v s. s\<lparr>negative_confidences := Some v\<rparr>)
                 (\<lambda>s. getitem_upto (negative_confidences s) n_pos)]
              @ use_positive_tail other (positive_ranks other)) self
          else exec (use_positive_tail other (positive_ranks other)) self)))"

subsection \<open>The invariant, stated on the fields\<close>

text \<open>
  Two fields agree when they are not both present tensors of different lengths; an
  object is well typed when no field holds a non-tensor.
\<close>

definition agree :: "pyobj option \<Rightarrow> pyobj option \<Rightarrow> bool" where
  "agree x y =
     (case x of
        Some (Tensor xs) \<Rightarrow>
          (case y of Some (Tensor ys) \<Rightarrow> length xs = length ys | Some NonTensor \<Rightarrow> True | None \<Rightarrow> True)
      | Some NonTensor \<Rightarrow> True
      | None \<Rightarrow> True)"

definition same_lengths :: "session_features \<Rightarrow> bool" where
  "same_lengths self =
     list_all (\<lambda>a. list_all (\<lambda>b. agree (get_attr a self) (get_attr b self)) attrs) attrs"

definition well_typed :: "session_features \<Rightarrow> bool" where
  "well_typed self = list_all (\<lambda>a. get_attr a self \<noteq> Some NonTensor) attrs"

section \<open>The experiment-tracking service\<close>

text \<open>
  \<open>ExperimentsManager\<close> talks to an MLflow server through MLflow's fluent interface.
  The model keeps what the manager reads and writes: the experiments by name, the runs
  with their status, parameters, metrics and whether a model artifact was logged, and
  the fluent interface's active run and active experiment. Identifiers are numbers.
  \<open>runs\<close> lists the runs in the order in which \<open>search_runs\<close> returns them. The
  calls are modelled as reaching the server; where the orchestration calls the manager
  outside its \<open>try\<close> block, its environment says whether the call fails.
\<close>

datatype run_status = RUNNING | SCHEDULED | FINISHED | FAILED | KILLED

record mlrun =
  info_run_id :: nat
  info_experiment_id :: nat
  info_run_name :: string
  info_status :: run_status
  data_params :: "(string \<times> string) list"
  data_metrics :: "(string \<times> real) list"
  model_logged :: bool

record mlflow =
  experiments :: "(string \<times> nat) list"
  runs :: "mlrun list"
  active_run :: "nat option"
  active_experiment :: "nat option"

definition fresh :: "nat list \<Rightarrow> nat" where
  "fresh ids = Suc (fold max ids 0)"

definition update_run :: "nat \<Rightarrow> (mlrun \<Rightarrow> mlrun) \<Rightarrow> mlflow \<Rightarrow> mlflow" where
  "update_run r f st = st\<lparr>runs := map (\<lambda>x. if info_run_id x = r then f x else x) (runs st)\<rparr>"

text \<open>
  Modelled from the spec: \<open>get_experiment_id_by_name\<close> and \<open>get_run_id_by_name\<close> of
  \<open>embedding_studio.worker.mlflow.utils\<close> are not among the sources. The spec says that
  a session "resolves or creates a corresponding external experiment container" and
  that a run is "identified by the params' identity key within the current session":
  the first looks an experiment up by its name, the second a run by its name within one
  experiment; both return \<open>None\<close> when there is none.
\<close>

definition get_experiment_id_by_name :: "string \<Rightarrow> mlflow \<Rightarrow> nat option" where
  "get_experiment_id_by_name name st = map_of (experiments st) name"

definition get_run_id_by_name :: "nat option \<Rightarrow> string \<Rightarrow> mlflow \<Rightarrow> nat option" where
  "get_run_id_by_name experiment_id run_name st =
     map_option info_run_id
       (find (\<lambda>r. Some (info_experiment_id r) = experiment_id \<and> info_run_name r = run_name)
          (runs st))"

text \<open>
  \<open>mlflow.create_experiment(name)\<close>, called only after the lookup by name found
  nothing, and \<open>mlflow.set_experiment\<close> by identifier and by name (the latter creates
  the experiment when it does not exist).
\<close>

definition create_experiment :: "string \<Rightarrow> mlflow \<Rightarrow> nat \<times> mlflow" where
  "create_experiment name st =
     (let e = fresh (map snd (experiments st))
      in (e, st\<lparr>experiments := experiments st @ [(name, e)]\<rparr>))"

definition set_experiment_id :: "nat \<Rightarrow> mlflow \<Rightarrow> mlflow" where
  "set_experiment_id e st = st\<lparr>active_experiment := Some e\<rparr>"

definition set_experiment_name :: "string \<Rightarrow> mlflow \<Rightarrow> nat \<times> mlflow" where
  "set_experiment_name name st =
     (case map_of (experiments st) name of
        Some e \<Rightarrow> (e, set_experiment_id e st)
      | None \<Rightarrow> (case create_experiment name st of (e, st') \<Rightarrow> (e, set_experiment_id e st')))"

text \<open>
  A new run, in the given experiment or else in the active one (experiment 0 is
  MLflow's default experiment). It becomes the active run and the most recent one.
\<close>

definition new_run :: "nat option \<Rightarrow> string \<Rightarrow> mlflow \<Rightarrow> nat \<times> mlflow" where
  "new_run experiment_id run_name st =
     (let r = fresh (map info_run_id (runs st));
          e = (case experiment_id of
                 Some e \<Rightarrow> e
               | None \<Rightarrow> (case active_experiment st of Some e \<Rightarrow> e | None \<Rightarrow> 0))
      in (r, st\<lparr>runs := \<lparr>info_run_id = r, info_experiment_id = e, info_run_name = run_name,
                          info_status = RUNNING, data_params = [], data_metrics = [],
                          model_logged = False\<rparr> # runs st,
                active_run := Some r\<rparr>))"

text \<open>
  \<open>mlflow.start_run(run_id, experiment_id, run_name)\<close>: refused while another run is
  active; with a run identifier the existing run is resumed, without one a run is
  created. The result is the identifier of the run now active.
\<close>

definition start_run ::
  "nat option \<Rightarrow> nat option \<Rightarrow> string \<Rightarrow> mlflow \<Rightarrow> error + nat \<times> mlflow" where
  "start_run run_id experiment_id run_name st =
     (if active_run st \<noteq> None then Inl Exception
      else case run_id of
        Some r \<Rightarrow>
          if r \<in> set (map info_run_id (runs st))
          then Inr (r, (update_run r (\<lambda>x. x\<lparr>info_status := RUNNING\<rparr>) st)\<lparr>active_run := Some r\<rparr>)
          else Inl MlflowException
      | None \<Rightarrow> Inr (new_run experiment_id run_name st))"

definition end_run :: "mlflow \<Rightarrow> mlflow" where
  "end_run st =
     (case active_run st of
        None \<Rightarrow> st
      | Some r \<Rightarrow> (update_run r (\<lambda>x. x\<lparr>info_status := FINISHED\<rparr>) st)\<lparr>active_run := None\<rparr>)"

text \<open>
  The logging calls write to the active run; without one the fluent interface starts
  a run first. A parameter can be logged again only with the value it has.
\<close>

definition current_run :: "mlflow \<Rightarrow> nat \<times> mlflow" where
  "current_run st = (case active_run st of Some r \<Rightarrow> (r, st) | None \<Rightarrow> new_run None [] st)"

definition put_param :: "string \<Rightarrow> string \<Rightarrow> mlrun \<Rightarrow> mlrun" where
  "put_param key v x =
     (if map_of (data_params x) key = None then x\<lparr>data_params := data_params x @ [(key, v)]\<rparr>
      else x)"

definition log_param :: "string \<Rightarrow> string \<Rightarrow> mlflow \<Rightarrow> error option \<times> mlflow" where
  "log_param key v st =
     (case current_run st of
        (r, st') \<Rightarrow>
          if list_ex (\<lambda>x. info_run_id x = r \<and> map_of (data_params x) key \<noteq> None
                           \<and> map_of (data_params x) key \<noteq> Some v) (runs st')
          then (Some MlflowException, st')
          else (None, update_run r (put_param key v) st'))"

definition log_model :: "mlflow \<Rightarrow> mlflow" where
  "log_model st =
     (case current_run st of (r, st') \<Rightarrow> update_run r (\<lambda>x. x\<lparr>model_logged := True\<rparr>) st')"

text \<open>
  \<open>mlflow.search_runs(experiment_ids=[e], filter_string=f)\<close> as a list of rows, and
  the two ways the manager reads a metric column of the resulting frame: a frame has
  the column when some row has the metric, and a row without the metric holds NaN
  there (\<open>None\<close>).
\<close>

definition search_runs :: "nat option \<Rightarrow> (mlrun \<Rightarrow> bool) \<Rightarrow> mlflow \<Rightarrow> mlrun list" where
  "search_runs experiment_id filter_string st =
     filter (\<lambda>r. Some (info_experiment_id r) = experiment_id \<and> filter_string r) (runs st)"

definition has_column :: "string \<Rightarrow> mlrun list \<Rightarrow> bool" where
  "has_column name frame = list_ex (\<lambda>r. map_of (data_metrics r) name \<noteq> None) frame"

definition cell :: "string \<Rightarrow> mlrun \<Rightarrow> real option" where
  "cell name r = map_of (data_metrics r) name"

definition model_uploaded :: "mlrun \<Rightarrow> bool" where
  "model_uploaded r = (map_of (data_params r) ''model_uploaded'' = Some ''1'')"

section \<open>ExperimentsManager\<close>

text \<open>
  Modelled from the spec: \<open>FineTuningSession\<close>, \<open>FineTuningParams\<close> and
  \<open>MetricsAccumulator\<close> are not among the sources. The spec calls the first two
  "immutable descriptors ... used as identity keys (string representation)": a
  descriptor is its key (\<open>str(session)\<close>, \<open>params.id\<close>) and its items
  (\<open>dict(session)\<close>), whose values are lists or scalars. Of an accumulator the spec
  says "\<open>clear()\<close> resets accumulated history": it is the list of values it holds.
\<close>

datatype pvalue = PList "string list" | PScalar string

record fine_tuning_session =
  session_str :: string
  session_items :: "(string \<times> pvalue) list"

record fine_tuning_params =
  params_id :: string
  params_items :: "(string \<times> pvalue) list"

type_synonym metrics_accumulator = "real list"

definition clear :: "metrics_accumulator \<Rightarrow> metrics_accumulator" where
  "clear accumulator = []"

text \<open>
  Modelled from the spec: \<open>EXPERIMENT_PREFIX\<close> is defined outside the sources; the
  name of the reserved initial experiment is that prefix followed by \<open>" / initial"\<close>.
  The prefix is taken to be \<open>"iteration"\<close>; only the examples evaluate it.
\<close>

definition EXPERIMENT_PREFIX :: string where
  "EXPERIMENT_PREFIX = ''iteration''"

definition INITIAL_EXPERIMENT_NAME :: string where
  "INITIAL_EXPERIMENT_NAME = EXPERIMENT_PREFIX @ '' / initial''"

text \<open>
  \<open>self._tuning_session\<close> holds \<open>None\<close>, the string \<open>INITIAL_EXPERIMENT_NAME\<close> (after
  \<open>finish_session\<close>) or a session descriptor (after \<open>set_session\<close>); a descriptor never
  compares equal to the string.
\<close>

datatype session_value = Initial_name | Session_object fine_tuning_session

record experiments_manager =
  main_metric :: string
  is_loss :: bool
  accumulators :: "metrics_accumulator list"
  experiment_handle :: "nat option"
  tuning_session :: "session_value option"
  tuning_session_id :: "nat option"
  run :: "nat option"
  run_params :: "fine_tuning_params option"
  run_id :: "nat option"
  mlflow :: mlflow

definition finish_session :: "experiments_manager \<Rightarrow> experiments_manager" where
  "finish_session self =
     (case get_experiment_id_by_name INITIAL_EXPERIMENT_NAME (mlflow self) of
        None \<Rightarrow>
          (case set_experiment_name INITIAL_EXPERIMENT_NAME (mlflow self) of
             (e, st) \<Rightarrow>
               self\<lparr>tuning_session := Some Initial_name, experiment_handle := Some e,
                    tuning_session_id := Some e, mlflow := st\<rparr>)
      | Some e \<Rightarrow>
          self\<lparr>tuning_session := Some Initial_name, tuning_session_id := Some e,
               experiment_handle := Some e, mlflow := set_experiment_id e (mlflow self)\<rparr>)"

definition finish_run :: "experiments_manager \<Rightarrow> experiments_manager" where
  "finish_run self =
     self\<lparr>accumulators := map clear (accumulators self), mlflow := end_run (mlflow self),
          run := None, run_params := None, run_id := None\<rparr>"

definition set_session :: "fine_tuning_session \<Rightarrow> experiments_manager \<Rightarrow> experiments_manager" where
  "set_session session self0 =
     (let self = (if tuning_session self0 = Some Initial_name then finish_session self0 else self0);
          found = get_experiment_id_by_name (session_str session) (mlflow self);
          created = (case found of
                       None \<Rightarrow> create_experiment (session_str session) (mlflow self)
                     | Some e \<Rightarrow> (e, mlflow self))
      in self\<lparr>tuning_session := Some (Session_object session),
              tuning_session_id := Some (fst created),
              experiment_handle := Some (fst created),
              mlflow := set_experiment_id (fst created) (snd created)\<rparr>)"

definition convert_value :: "pvalue \<Rightarrow> string" where
  "convert_value v =
     (case v of
        PList xs \<Rightarrow> (case xs of [] \<Rightarrow> [] | y # ys \<Rightarrow> foldl (\<lambda>a b. a @ '', '' @ b) y ys)
      | PScalar x \<Rightarrow> x)"

definition log_param_stmt :: "string \<times> pvalue \<Rightarrow> experiments_manager stmt" where
  "log_param_stmt kv self =
     (case log_param (fst kv) (convert_value (snd kv)) (mlflow self) of
        (e, st) \<Rightarrow> (e, self\<lparr>mlflow := st\<rparr>))"

text \<open>
  \<open>set_run\<close>. \<open>dict(self._tuning_session)\<close> is the items of the session descriptor;
  on a manager that never had a session (\<open>None\<close>) it raises \<open>TypeError\<close>.
\<close>

definition set_run :: "fine_tuning_params \<Rightarrow> experiments_manager stmt" where
  "set_run params self0 =
     (if tuning_session self0 = Some Initial_name then (Some ValueError, self0)
      else
        let self1 = (if run self0 \<noteq> None then finish_run self0 else self0);
            self2 = self1\<lparr>run_params := Some params\<rparr>;
            run_name = params_id params;
            self3 = self2\<lparr>run_id := get_run_id_by_name (tuning_session_id self2) run_name
                                        (mlflow self2)\<rparr>
        in case start_run (run_id self3) (tuning_session_id self3) run_name (mlflow self3) of
             Inl e \<Rightarrow> (Some e, self3)
           | Inr started \<Rightarrow>
               let self4 = self3\<lparr>run := Some (fst started), mlflow := snd started\<rparr>;
                   self5 = (if run_id self4 = None then self4\<lparr>run_id := Some (fst started)\<rparr>
                            else self4)
               in (case tuning_session self5 of
                     Some (Session_object session) \<Rightarrow>
                       exec (map log_param_stmt (session_items session)
                             @ map log_param_stmt (params_items params)) self5
                   | Some Initial_name \<Rightarrow> (Some TypeError, self5)
                   | None \<Rightarrow> (Some TypeError, self5)))"

text \<open>
  \<open>get_quality\<close>. The frame holds every run of the session; \<open>quality\<close> is the metric
  column restricted to the rows of the current run. With one such row the result is
  its value; otherwise \<open>quality[0]\<close> looks for the row labelled 0, the first row of
  the frame. The result \<open>None\<close> is NaN.
\<close>

definition get_quality :: "experiments_manager \<Rightarrow> error + real option" where
  "get_quality self =
     (if tuning_session self = Some Initial_name then Inl ValueError
      else if run_id self = None then Inl ValueError
      else
        let frame = search_runs (tuning_session_id self) (\<lambda>r. True) (mlflow self);
            rows = filter (\<lambda>r. Some (info_run_id r) = run_id self) frame
        in if \<not> has_column (main_metric self) frame then Inl KeyError
           else if length rows = 1 then Inr (cell (main_metric self) (hd rows))
           else if frame \<noteq> [] \<and> Some (info_run_id (hd frame)) = run_id self
             then Inr (cell (main_metric self) (hd frame))
           else Inl KeyError)"

text \<open>
  \<open>_get_best_quality\<close> (written \<open>get_best_quality'\<close>). \<open>min()\<close> and \<open>max()\<close> of a
  column skip NaN; when every row holds NaN the extreme is NaN, no row equals it, and
  taking the first element of the empty list raises \<open>IndexError\<close>.
\<close>

definition get_best_quality' ::
  "experiments_manager \<Rightarrow> nat option \<Rightarrow> error + nat option \<times> real" where
  "get_best_quality' self experiment_id =
     (let found = search_runs experiment_id model_uploaded (mlflow self);
          frame = filter (\<lambda>r. info_status r = FINISHED) found
      in if frame = [] then Inr (None, 0)
         else if \<not> has_column (main_metric self) found then Inl KeyError
         else
           let column = List.map_filter (cell (main_metric self)) frame
           in if column = [] then Inl IndexError
              else
                let v = (if is_loss self then Min (set column) else Max (set column));
                    best = filter (\<lambda>r. cell (main_metric self) r = Some v) frame
                in (case best of
                      [] \<Rightarrow> Inl IndexError
                    | r # rest \<Rightarrow> Inr (Some (info_run_id r), v)))"

definition get_best_quality :: "experiments_manager \<Rightarrow> error + nat option \<times> real" where
  "get_best_quality self =
     (if tuning_session self = Some Initial_name then Inl ValueError
      else get_best_quality' self (tuning_session_id self))"

text \<open>
  \<open>save_model\<close>. The comparison of the current quality with the best one is a
  comparison of floats: it is false when the current quality is NaN.
\<close>

definition upload :: "experiments_manager stmt" where
  "upload self =
     (case log_param ''model_uploaded'' ''1'' (log_model (mlflow self)) of
        (e, st) \<Rightarrow> (e, self\<lparr>mlflow := st\<rparr>))"

definition not_worse :: "bool \<Rightarrow> real option \<Rightarrow> real \<Rightarrow> bool" where
  "not_worse loss current_quality best_quality =
     (case current_quality of
        None \<Rightarrow> False
      | Some c \<Rightarrow> if loss then c \<le> best_quality else c \<ge> best_quality)"

definition save_model :: "bool \<Rightarrow> experiments_manager stmt" where
  "save_model best_only self =
     (if tuning_session self = Some Initial_name then (Some ValueError, self)
      else if run_id self = None then (Some ValueError, self)
      else if \<not> best_only then upload self
      else
        (case get_quality self of
           Inl e \<Rightarrow> (Some e, self)
         | Inr current_quality \<Rightarrow>
             (case get_best_quality self of
                Inl e \<Rightarrow> (Some e, self)
              | Inr best \<Rightarrow>
                  if fst best = None \<or> not_worse (is_loss self) current_quality (snd best)
                  then upload self
                  else (None, self))))"

section \<open>Fine-tuning orchestration\<close>

text \<open>
  \<open>except Exception\<close> catches every exception but those outside the \<open>Exception\<close>
  class.
\<close>

definition is_Exception :: "error \<Rightarrow> bool" where
  "is_Exception e = (e \<noteq> KeyboardInterrupt)"

text \<open>
  \<open>Trials\<close>: the parameters hyperopt has evaluated, each with the loss the objective
  returned.
\<close>

type_synonym trials = "(fine_tuning_params \<times> real option) list"

text \<open>
  What the orchestration consumes as black boxes: the result of
  \<open>tracker.get_top_params()\<close> (it builds \<open>FineTuningParams\<close> objects, a class outside
  the sources), the outcome of \<open>tracker.get_last_model()\<close>, the outcome of
  \<open>torch.save\<close> (the exception, and whether it left a file behind), the training of
  one trial between \<open>set_run\<close> and \<open>get_quality\<close> (it may log metrics to the tracker and
  may raise), and the parameters hyperopt suggests after the trials seen so far.

  Three calls stand outside the \<open>try\<close> block and reach the tracking service or the
  file system: \<open>tracker.set_session(session)\<close> before it, \<open>os.remove\<close> and
  \<open>tracker.finish_session()\<close> after it. For each the environment gives the exception
  with which the call fails, if it fails; a failing call is taken to change nothing.
\<close>

record environment =
  get_top_params :: "experiments_manager \<Rightarrow> error + fine_tuning_params list option"
  set_session_raises :: "experiments_manager \<Rightarrow> error option"
  get_last_model :: "experiments_manager \<Rightarrow> error option"
  torch_save :: "error option \<times> bool"
  fit :: "fine_tuning_params \<Rightarrow> experiments_manager stmt"
  suggest :: "trials \<Rightarrow> fine_tuning_params"
  os_remove_raises :: "error option"
  finish_session_raises :: "experiments_manager \<Rightarrow> error option"

text \<open>
  \<open>fine_tune_embedding_model_one_param\<close>: start the run, train, read the quality,
  save the model (a failure to save is logged and dropped), finish the run.
\<close>

definition fine_tune_embedding_model_one_param ::
  "environment \<Rightarrow> fine_tuning_params \<Rightarrow> experiments_manager
     \<Rightarrow> (error + real option) \<times> experiments_manager" where
  "fine_tune_embedding_model_one_param env fine_tuning_params tracker0 =
     (case set_run fine_tuning_params tracker0 of
        (Some e, t1) \<Rightarrow> (Inl e, t1)
      | (None, t1) \<Rightarrow>
     (case fit env fine_tuning_params t1 of
        (Some e, t2) \<Rightarrow> (Inl e, t2)
      | (None, t2) \<Rightarrow>
     (case get_quality t2 of
        Inl e \<Rightarrow> (Inl e, t2)
      | Inr quality \<Rightarrow>
     (case save_model True t2 of
        (Some e, t3) \<Rightarrow> if is_Exception e then (Inr quality, finish_run t3) else (Inl e, t3)
      | (None, t3) \<Rightarrow> (Inr quality, finish_run t3)))))"

text \<open>
  The state of one call of \<open>finetune_embedding_model\<close>: the tracker, whether the
  temporary file \<open>initial_model.pth\<close> exists, and the trials started so far. A trial
  loads the model from that file, which \<open>torch.save\<close> has just written; the load is
  taken to succeed.
\<close>

record sweep =
  tracker :: experiments_manager
  initial_model_file :: bool
  started :: "fine_tuning_params list"

definition finetune_embedding_model_one_step ::
  "environment \<Rightarrow> fine_tuning_params \<Rightarrow> sweep \<Rightarrow> (error + real option) \<times> sweep" where
  "finetune_embedding_model_one_step env fine_tuning_params s =
     (case fine_tune_embedding_model_one_param env fine_tuning_params (tracker s) of
        (r, t) \<Rightarrow> (r, s\<lparr>tracker := t, started := started s @ [fine_tuning_params]\<rparr>))"

text \<open>The loop \<open>for finetuning_params in tqdm(best_params)\<close>.\<close>

fun for_best_params :: "environment \<Rightarrow> fine_tuning_params list \<Rightarrow> sweep \<Rightarrow> error option \<times> sweep" where
  "for_best_params env [] s = (None, s)"
| "for_best_params env (p # ps) s =
     (case finetune_embedding_model_one_step env p s of
        (Inl e, s') \<Rightarrow> (Some e, s')
      | (Inr quality, s') \<Rightarrow> for_best_params env ps s')"

text \<open>
  \<open>fmin\<close> evaluates the objective \<open>max_evals\<close> times, each time on the parameters
  suggested from the trials recorded so far, and records the trial with its loss; an
  exception of the objective leaves \<open>fmin\<close>. The objective is the quality for a loss
  and its negation otherwise. What \<open>fmin\<close> returns is not used; the model returns
  the \<open>Trials\<close> object next to the state.
\<close>

definition objective_value :: "bool \<Rightarrow> real option \<Rightarrow> real option" where
  "objective_value loss quality = (if loss then quality else map_option (\<lambda>q. - 1 * q) quality)"

fun fmin :: "environment \<Rightarrow> nat \<Rightarrow> trials \<Rightarrow> sweep \<Rightarrow> error option \<times> trials \<times> sweep" where
  "fmin env 0 trials s = (None, trials, s)"
| "fmin env (Suc max_evals) trials s =
     (case finetune_embedding_model_one_step env (suggest env trials) s of
        (Inl e, s') \<Rightarrow> (Some e, trials, s')
      | (Inr quality, s') \<Rightarrow>
          fmin env max_evals
            (trials @ [(suggest env trials, objective_value (is_loss (tracker s')) quality)]) s')"

text \<open>The body of the \<open>try\<close> block.\<close>

definition try_body ::
  "environment \<Rightarrow> fine_tuning_params list option \<Rightarrow> nat \<Rightarrow> sweep \<Rightarrow> error option \<times> sweep" where
  "try_body env best_params initial_max_evals s =
     (case get_last_model env (tracker s) of
        Some e \<Rightarrow> (Some e, s)
      | None \<Rightarrow>
     (case torch_save env of
        (Some e, left) \<Rightarrow> (Some e, s\<lparr>initial_model_file := left\<rparr>)
      | (None, left) \<Rightarrow>
          if best_params = None \<or> best_params = Some []
          then (case fmin env initial_max_evals [] (s\<lparr>initial_model_file := True\<rparr>) of
                  (r, trials, s') \<Rightarrow> (r, s'))
          else for_best_params env (the best_params) (s\<lparr>initial_model_file := True\<rparr>)))"

text \<open>
  After the \<open>try\<close> statement: \<open>os.remove\<close> of the file if it exists, then the end of
  the \<open>with\<close> block, which deletes the temporary directory and what is left in it
  also when the block is left by an exception, then \<open>tracker.finish_session()\<close>.
\<close>

definition remove_initial_model :: "environment \<Rightarrow> sweep stmt" where
  "remove_initial_model env s =
     (if initial_model_file s
      then (case os_remove_raises env of
              Some e \<Rightarrow> (Some e, s)
            | None \<Rightarrow> (None, s\<lparr>initial_model_file := False\<rparr>))
      else (None, s))"

definition leave_directory :: "sweep \<Rightarrow> sweep" where
  "leave_directory s = s\<lparr>initial_model_file := False\<rparr>"

definition finish_session_stmt :: "environment \<Rightarrow> sweep stmt" where
  "finish_session_stmt env s =
     (case finish_session_raises env (tracker s) of
        Some e \<Rightarrow> (Some e, s)
      | None \<Rightarrow> (None, s\<lparr>tracker := finish_session (tracker s)\<rparr>))"

definition after_try :: "environment \<Rightarrow> sweep stmt" where
  "after_try env s =
     (case remove_initial_model env s of
        (Some e, s1) \<Rightarrow> (Some e, leave_directory s1)
      | (None, s1) \<Rightarrow> finish_session_stmt env (leave_directory s1))"

definition finetune_embedding_model ::
  "environment \<Rightarrow> fine_tuning_session \<Rightarrow> nat \<Rightarrow> experiments_manager \<Rightarrow> error option \<times> sweep" where
  "finetune_embedding_model env session initial_max_evals tracker0 =
     (case get_top_params env tracker0 of
        Inl e \<Rightarrow> (Some e, \<lparr>tracker = tracker0, initial_model_file = False, started = []\<rparr>)
      | Inr best_params \<Rightarrow>
     (case set_session_raises env tracker0 of
        Some e \<Rightarrow> (Some e, \<lparr>tracker = tracker0, initial_model_file = False, started = []\<rparr>)
      | None \<Rightarrow>
     (case try_body env best_params initial_max_evals
             \<lparr>tracker = set_session session tracker0, initial_model_file = False,
              started = []\<rparr> of
        (None, s) \<Rightarrow> after_try env s
      | (Some e, s) \<Rightarrow>
          if is_Exception e then after_try env s
          else (Some e, leave_directory s))))"

section \<open>SessionFeatures: the checks decide the invariant\<close>

lemma remdups_le1: "(length (remdups ns) \<le> 1) = (\<forall>a\<in>set ns. \<forall>b\<in>set ns. a = b)"
  by (simp add: length_remdups_card_conv card_le_Suc0_iff_eq)

lemma check_types_well_typed: "(check_types self = None) = well_typed self"
  by (cases "positive_ranks self"; cases "negative_ranks self"; cases "target self"; cases "positive_confidences self"; cases "negative_confidences self")
     (auto simp: check_types_def well_typed_def attrs_def not_tensor_def isinstance_Tensor_def split: pyobj.splits)

lemma agree_all: "(length (remdups ns) > 1) = (\<not> (\<forall>a\<in>set ns. \<forall>b\<in>set ns. a = b))"
  using remdups_le1 [of ns] by auto

definition tlen :: "pyobj \<Rightarrow> nat" where
  "tlen x = (case x of Tensor xs \<Rightarrow> length xs | NonTensor \<Rightarrow> 0)"

lemma lens_tlen: "NonTensor \<notin> set xs \<Longrightarrow> lens xs = Inr (map tlen xs)"
  by (induction xs) (auto simp: py_len_def tlen_def split: pyobj.splits)

lemma in_map_filter_id: "(x \<in> set (List.map_filter (\<lambda>x. x) fs)) = (Some x \<in> set fs)"
proof (induction fs)
  case Nil
  show ?case by simp
next
  case (Cons f fs)
  then show ?case by (cases f) auto
qed

lemma set_map_filter_id: "set (List.map_filter (\<lambda>x. x) fs) = {x. Some x \<in> set fs}"
  using in_map_filter_id [of _ fs] by blast

lemma agree_tlen:
  assumes "x \<noteq> Some NonTensor" and "y \<noteq> Some NonTensor"
  shows "agree x y = (x = None \<or> y = None \<or> tlen (the x) = tlen (the y))"
proof (cases x)
  case None
  then show ?thesis by (simp add: agree_def)
next
  case (Some u)
  note xu = this
  show ?thesis
  proof (cases y)
    case None
    then show ?thesis using xu by (cases u) (simp_all add: agree_def)
  next
    case (Some v)
    then show ?thesis using xu assms by (cases u; cases v) (simp_all add: agree_def tlen_def)
  qed
qed

lemma lengths_generic:
  assumes "Some NonTensor \<notin> set fs"
  shows "(case lens (List.map_filter (\<lambda>x. x) fs) of Inl e \<Rightarrow> Some e
          | Inr ls \<Rightarrow> if length (remdups ls) > 1 then Some ValueError else None)
         = (if (\<forall>x\<in>set fs. \<forall>y\<in>set fs. agree x y) then None else Some ValueError)"
proof -
  let ?ps = "List.map_filter (\<lambda>x. x) fs"
  have nt: "NonTensor \<notin> set ?ps"
    using assms by (simp add: in_map_filter_id)
  have l: "lens ?ps = Inr (map tlen ?ps)"
    using nt by (rule lens_tlen)
  have e1: "(\<forall>a\<in>set (map tlen ?ps). \<forall>b\<in>set (map tlen ?ps). a = b)
        = (\<forall>u. \<forall>v. Some u \<in> set fs \<longrightarrow> Some v \<in> set fs \<longrightarrow> tlen u = tlen v)"
    unfolding set_map set_map_filter_id by blast
  have e2: "(\<forall>u. \<forall>v. Some u \<in> set fs \<longrightarrow> Some v \<in> set fs \<longrightarrow> tlen u = tlen v)
        = (\<forall>x\<in>set fs. \<forall>y\<in>set fs. agree x y)"
  proof
    assume h: "\<forall>u. \<forall>v. Some u \<in> set fs \<longrightarrow> Some v \<in> set fs \<longrightarrow> tlen u = tlen v"
    show "\<forall>x\<in>set fs. \<forall>y\<in>set fs. agree x y"
    proof (intro ballI)
      fix x y assume xy: "x \<in> set fs" "y \<in> set fs"
      then have ne: "x \<noteq> Some NonTensor" "y \<noteq> Some NonTensor" using assms by blast+
      show "agree x y"
      proof (cases "x = None \<or> y = None")
        case True
        then show ?thesis unfolding agree_tlen [OF ne] by blast
      next
        case False
        then obtain u v where uv: "x = Some u" "y = Some v" by auto
        with xy h have t: "tlen u = tlen v" by blast
        from ne have ne': "Some u \<noteq> Some NonTensor" "Some v \<noteq> Some NonTensor"
          unfolding uv by blast+
        show ?thesis unfolding uv agree_tlen [OF ne'] using t by simp
      qed
    qed
  next
    assume h: "\<forall>x\<in>set fs. \<forall>y\<in>set fs. agree x y"
    show "\<forall>u. \<forall>v. Some u \<in> set fs \<longrightarrow> Some v \<in> set fs \<longrightarrow> tlen u = tlen v"
    proof (intro allI impI)
      fix u v assume uv: "Some u \<in> set fs" "Some v \<in> set fs"
      then have a: "agree (Some u) (Some v)" using h by blast
      have ne: "Some u \<noteq> Some NonTensor" "Some v \<noteq> Some NonTensor" using uv assms by blast+
      show "tlen u = tlen v" using a unfolding agree_tlen [OF ne] by simp
    qed
  qed
  show ?thesis unfolding l sum.case agree_all e1 e2 by simp
qed

lemma check_lengths_same:
  assumes "well_typed self"
  shows "check_lengths self = (if same_lengths self then None else Some ValueError)"
proof -
  let ?fs = "[positive_ranks self, negative_ranks self, target self,
              positive_confidences self, negative_confidences self]"
  have "Some NonTensor \<notin> set ?fs"
    using assms by (auto simp: well_typed_def attrs_def)
  from lengths_generic [OF this]
  have "check_lengths self = (if (\<forall>x\<in>set ?fs. \<forall>y\<in>set ?fs. agree x y) then None else Some ValueError)"
    unfolding check_lengths_def .
  moreover have "same_lengths self = (\<forall>x\<in>set ?fs. \<forall>y\<in>set ?fs. agree x y)"
    by (simp add: same_lengths_def attrs_def)
  ultimately show ?thesis by simp
qed

lemma check_types_cases: "check_types self = (if well_typed self then None else Some TypeError)"
proof (cases "well_typed self")
  case True
  then show ?thesis by (simp add: check_types_well_typed)
next
  case False
  then have "check_types self \<noteq> None" by (simp add: check_types_well_typed)
  then show ?thesis using False by (simp add: check_types_def split: if_splits)
qed

text \<open>
  Claim C4, as the code has it. The constructor returns an object exactly when no
  argument is a non-tensor and all tensor arguments have one length; it raises
  \<open>TypeError\<close> when some argument is a non-tensor and \<open>ValueError\<close> when the
  arguments are tensors of differing lengths. A setter stores the value first and runs
  the same two checks on the object it has changed: it raises under the same conditions,
  and the object keeps the stored value whether the setter raises or not.
\<close>

theorem init_and_setter_checks:
  "session_features_init pr nr t pc nc =
     (if \<not> well_typed \<lparr>positive_ranks = pr, negative_ranks = nr, target = t,
              positive_confidences = pc, negative_confidences = nc\<rparr> then Inl TypeError
      else if \<not> same_lengths \<lparr>positive_ranks = pr, negative_ranks = nr, target = t,
              positive_confidences = pc, negative_confidences = nc\<rparr> then Inl ValueError
      else Inr \<lparr>positive_ranks = pr, negative_ranks = nr, target = t,
              positive_confidences = pc, negative_confidences = nc\<rparr>)
   \<and> setter a v self =
     (if \<not> well_typed (put_attr a v self) then Some TypeError
      else if \<not> same_lengths (put_attr a v self) then Some ValueError
      else None, put_attr a v self)"
  by (simp add: session_features_init_def setter_def call_def check_types_cases check_lengths_same)

text \<open>
  Claim C4 as stated fails: assigning a tensor of length one to \<open>positive_ranks\<close>
  of an object whose \<open>negative_ranks\<close> has length two raises \<open>ValueError\<close>, and
  the object then holds fields of differing lengths.
\<close>

theorem setter_leaves_invalid_object:
  "setter Positive_ranks (Some (Tensor [1]))
     \<lparr>positive_ranks = None, negative_ranks = Some (Tensor [3, 4]), target = None,
      positive_confidences = None, negative_confidences = None\<rparr>
   = (Some ValueError,
      \<lparr>positive_ranks = Some (Tensor [1]), negative_ranks = Some (Tensor [3, 4]), target = None,
       positive_confidences = None, negative_confidences = None\<rparr>)
   \<and> \<not> same_lengths
      \<lparr>positive_ranks = Some (Tensor [1]), negative_ranks = Some (Tensor [3, 4]), target = None,
       positive_confidences = None, negative_confidences = None\<rparr>"
  by (simp add: setter_def call_def check_types_def check_lengths_def not_tensor_def
      isinstance_Tensor_def List.map_filter_simps py_len_def same_lengths_def attrs_def agree_def)

section \<open>SessionFeatures: filtering by rank difference\<close>

text \<open>
  The indices the specification says are retained: those where the absolute difference
  of the two ranks lies strictly between the bounds.
\<close>

definition kept :: "real \<Rightarrow> real \<Rightarrow> real list \<Rightarrow> real list \<Rightarrow> nat set" where
  "kept mn mx p n = {i. i < length p \<and> mn < \<bar>p ! i - n ! i\<bar> \<and> \<bar>p ! i - n ! i\<bar> < mx}"

lemma select_nths: "length keep = length xs \<Longrightarrow> select xs keep = nths xs {i. i < length keep \<and> keep ! i}"
proof (induction xs keep rule: list_induct2')
  case (4 x xs k ks)
  then show ?case by (simp add: select_def nths_Cons)
qed (simp_all add: select_def)

lemma select_all: "length keep = length xs \<Longrightarrow> list_all (\<lambda>b. b) keep \<Longrightarrow> select xs keep = xs"
  by (induction xs keep rule: list_induct2') (simp_all add: select_def)

lemma select_map2: "length xs = length ys \<Longrightarrow> length ys = length ks \<Longrightarrow>
   map2 f (select xs ks) (select ys ks) = select (map2 f xs ys) ks"
  by (induction xs ys ks rule: list_induct3) (simp_all add: select_def)

lemma select_self: "list_all P (select ds (map P ds))"
  by (induction ds) (simp_all add: select_def)

lemma length_select: "length xs = length ks \<Longrightarrow> length (select xs ks) = length (filter (\<lambda>b. b) ks)"
  by (induction xs ks rule: list_induct2) (simp_all add: select_def)

lemma map2_conj: "map2 (\<and>) (map f ds) (map g ds) = map (\<lambda>d. f d \<and> g d) ds"
  by (induction ds) simp_all


lemma examples_of_map: "examples mn mx diff = map (\<lambda>d. mn < \<bar>d\<bar> \<and> \<bar>d\<bar> < mx) diff"
  unfolding examples_def Let_def by (rule map2_conj)

lemma length_examples: "length (examples mn mx d) = length d"
  by (simp add: examples_of_map)

lemma check_lengths_tensors:
  assumes "length b = length a" "length c = length a" "length d = length a" "length e = length a"
  shows "check_lengths \<lparr>positive_ranks = Some (Tensor a), negative_ranks = Some (Tensor b),
           target = Some (Tensor c), positive_confidences = Some (Tensor d),
           negative_confidences = Some (Tensor e)\<rparr> = None"
  using assms by (simp add: check_lengths_def py_len_def)

lemma clamp_all_present:
  assumes "length n = length p" "length t = length p" "length pc = length p" "length nc = length p"
  shows "clamp_diff_in mn mx \<lparr>positive_ranks = Some (Tensor p), negative_ranks = Some (Tensor n),
           target = Some (Tensor t), positive_confidences = Some (Tensor pc),
           negative_confidences = Some (Tensor nc)\<rparr>
         = (None, \<lparr>positive_ranks = Some (Tensor (select p (examples mn mx (map2 (-) p n)))),
              negative_ranks = Some (Tensor (select n (examples mn mx (map2 (-) p n)))),
              target = Some (Tensor (select t (examples mn mx (map2 (-) p n)))),
              positive_confidences = Some (Tensor (select pc (examples mn mx (map2 (-) p n)))),
              negative_confidences = Some (Tensor (select nc (examples mn mx (map2 (-) p n))))\<rparr>)"
proof -
  let ?ex = "examples mn mx (map2 (-) p n)"
  have len: "length ?ex = length p"
    using assms by (simp add: length_examples)
  have sub: "tensor_sub (Tensor p) (Tensor n) = Inr (map2 (-) p n)"
    using assms by (simp add: tensor_sub_def)
  have g: "\<And>xs. length xs = length p \<Longrightarrow> getitem_mask (Some (Tensor xs)) ?ex = Inr (Tensor (select xs ?ex))"
    using len by (simp add: getitem_mask_def)
  have ls: "\<And>xs. length xs = length p \<Longrightarrow> length (select xs ?ex) = length (filter (\<lambda>b. b) ?ex)"
    using len by (simp add: length_select)
  have chk: "check_lengths \<lparr>positive_ranks = Some (Tensor (select p ?ex)),
              negative_ranks = Some (Tensor (select n ?ex)),
              target = Some (Tensor (select t ?ex)),
              positive_confidences = Some (Tensor (select pc ?ex)),
              negative_confidences = Some (Tensor (select nc ?ex))\<rparr> = None"
    by (rule check_lengths_tensors) (simp_all add: ls assms)
  show ?thesis
    unfolding clamp_diff_in_def
    by (simp add: sub assign_def call_def g assms chk)
qed

lemma select_kept:
  assumes "length n = length p" "length xs = length p"
  shows "select xs (examples mn mx (map2 (-) p n)) = nths xs (kept mn mx p n)"
proof -
  let ?ex = "examples mn mx (map2 (-) p n)"
  have len: "length ?ex = length xs" using assms by (simp add: length_examples)
  have "{i. i < length ?ex \<and> ?ex ! i} = kept mn mx p n"
    using assms by (auto simp: examples_of_map kept_def)
  with select_nths [OF len] show ?thesis by simp
qed

lemma list_all_map_id: "list_all (\<lambda>b. b) (map P xs) = list_all P xs"
  by (induction xs) simp_all

lemma examples_again:
  assumes "length n = length p"
  shows "list_all (\<lambda>b. b) (examples mn mx (map2 (-) (select p (examples mn mx (map2 (-) p n)))
             (select n (examples mn mx (map2 (-) p n)))))"
proof -
  let ?d = "map2 (-) p n"
  let ?ex = "examples mn mx ?d"
  have "length p = length n" "length n = length ?ex" using assms by (simp_all add: length_examples)
  then have a: "map2 (-) (select p ?ex) (select n ?ex) = select ?d ?ex"
    by (rule select_map2)
  have b: "list_all (\<lambda>d. mn < \<bar>d\<bar> \<and> \<bar>d\<bar> < mx) (select ?d ?ex)"
    unfolding examples_of_map by (rule select_self)
  have c: "examples mn mx (map2 (-) (select p ?ex) (select n ?ex))
           = map (\<lambda>d. mn < \<bar>d\<bar> \<and> \<bar>d\<bar> < mx) (select ?d ?ex)"
    unfolding a by (rule examples_of_map)
  show ?thesis
    unfolding c list_all_map_id by (rule b)
qed

text \<open>
  Claim C5. On an object with all five fields present, of one length,
  \<open>clamp_diff_in\<close> returns normally and leaves in every field exactly the elements at
  the indices \<open>i\<close> with \<open>min < |positive_ranks[i] - negative_ranks[i]| < max\<close>, in
  order; the fields of the result have one length; a second call with the same bounds
  changes nothing.
\<close>

theorem clamp_diff_in_retains:
  assumes "positive_ranks self = Some (Tensor p)" and "negative_ranks self = Some (Tensor n)"
    and "target self = Some (Tensor t)" and "positive_confidences self = Some (Tensor pc)"
    and "negative_confidences self = Some (Tensor nc)"
    and "length n = length p" and "length t = length p"
    and "length pc = length p" and "length nc = length p"
    and res: "result = \<lparr>positive_ranks = Some (Tensor (nths p (kept mn mx p n))),
                   negative_ranks = Some (Tensor (nths n (kept mn mx p n))),
                   target = Some (Tensor (nths t (kept mn mx p n))),
                   positive_confidences = Some (Tensor (nths pc (kept mn mx p n))),
                   negative_confidences = Some (Tensor (nths nc (kept mn mx p n)))\<rparr>"
  shows "clamp_diff_in mn mx self = (None, result)
         \<and> same_lengths result
         \<and> clamp_diff_in mn mx result = (None, result)"
proof -
  let ?ex = "examples mn mx (map2 (-) p n)"
  let ?r = "\<lparr>positive_ranks = Some (Tensor (select p ?ex)),
              negative_ranks = Some (Tensor (select n ?ex)),
              target = Some (Tensor (select t ?ex)),
              positive_confidences = Some (Tensor (select pc ?ex)),
              negative_confidences = Some (Tensor (select nc ?ex))\<rparr>"
  have self: "self = \<lparr>positive_ranks = Some (Tensor p), negative_ranks = Some (Tensor n),
           target = Some (Tensor t), positive_confidences = Some (Tensor pc),
           negative_confidences = Some (Tensor nc)\<rparr>"
    using assms(1-5) by (cases self) simp
  have len: "length ?ex = length p" using assms by (simp add: length_examples)
  have first: "clamp_diff_in mn mx self = (None, ?r)"
    unfolding self using assms(6-9) by (rule clamp_all_present)
  have ls: "\<And>xs. length xs = length p \<Longrightarrow> length (select xs ?ex) = length (filter (\<lambda>b. b) ?ex)"
    using len by (simp add: length_select)
  have second: "clamp_diff_in mn mx ?r =
      (None, \<lparr>positive_ranks = Some (Tensor (select (select p ?ex) (examples mn mx (map2 (-) (select p ?ex) (select n ?ex))))),
              negative_ranks = Some (Tensor (select (select n ?ex) (examples mn mx (map2 (-) (select p ?ex) (select n ?ex))))),
              target = Some (Tensor (select (select t ?ex) (examples mn mx (map2 (-) (select p ?ex) (select n ?ex))))),
              positive_confidences = Some (Tensor (select (select pc ?ex) (examples mn mx (map2 (-) (select p ?ex) (select n ?ex))))),
              negative_confidences = Some (Tensor (select (select nc ?ex) (examples mn mx (map2 (-) (select p ?ex) (select n ?ex)))))\<rparr>)"
    by (rule clamp_all_present) (simp_all add: ls assms)
  let ?ex2 = "examples mn mx (map2 (-) (select p ?ex) (select n ?ex))"
  have all2: "list_all (\<lambda>b. b) ?ex2"
    using assms(6) by (rule examples_again)
  have len2: "length ?ex2 = length (select p ?ex)"
    by (simp add: length_examples ls assms)
  have keep: "\<And>xs. length xs = length p \<Longrightarrow> select (select xs ?ex) ?ex2 = select xs ?ex"
    using all2 len2 by (simp add: select_all ls)
  have idem: "clamp_diff_in mn mx ?r = (None, ?r)"
    unfolding second by (simp add: keep assms)
  have sl: "same_lengths ?r"
    by (simp add: same_lengths_def attrs_def agree_def ls assms)
  have k: "\<And>xs. length xs = length p \<Longrightarrow> select xs ?ex = nths xs (kept mn mx p n)"
    using assms(6) by (simp add: select_kept)
  have "result = ?r"
    unfolding res by (simp add: k assms)
  then show ?thesis
    using first idem sl by simp
qed

theorem clamp_diff_in_retains_witness:
  "clamp_diff_in 2 7
     \<lparr>positive_ranks = Some (Tensor [1, 5, 9]), negative_ranks = Some (Tensor [0, 0, 10]),
      target = Some (Tensor [1, 1, 1]), positive_confidences = Some (Tensor [3, 4, 5]),
      negative_confidences = Some (Tensor [6, 7, 8])\<rparr>
   = (None,
     \<lparr>positive_ranks = Some (Tensor [5]), negative_ranks = Some (Tensor [0]),
      target = Some (Tensor [1]), positive_confidences = Some (Tensor [4]),
      negative_confidences = Some (Tensor [7])\<rparr>)
   \<and> clamp_diff_in 2 7
     \<lparr>positive_ranks = Some (Tensor [5]), negative_ranks = Some (Tensor [0]),
      target = Some (Tensor [1]), positive_confidences = Some (Tensor [4]),
      negative_confidences = Some (Tensor [7])\<rparr>
   = (None,
     \<lparr>positive_ranks = Some (Tensor [5]), negative_ranks = Some (Tensor [0]),
      target = Some (Tensor [1]), positive_confidences = Some (Tensor [4]),
      negative_confidences = Some (Tensor [7])\<rparr>)"
proof -
  let ?s = "\<lparr>positive_ranks = Some (Tensor [1, 5, 9]), negative_ranks = Some (Tensor [0, 0, 10]),
      target = Some (Tensor [1, 1, 1]), positive_confidences = Some (Tensor [3, 4, 5]),
      negative_confidences = Some (Tensor [6, 7, 8])\<rparr>"
  let ?r = "\<lparr>positive_ranks = Some (Tensor [5]), negative_ranks = Some (Tensor [0]),
      target = Some (Tensor [1]), positive_confidences = Some (Tensor [4]),
      negative_confidences = Some (Tensor [7])\<rparr>"
  show ?thesis
    using clamp_diff_in_retains [of ?s "[1, 5, 9]" "[0, 0, 10]" "[1, 1, 1]" "[3, 4, 5]"
        "[6, 7, 8]" ?r 2 7]
    by (simp add: kept_def nths_Cons)
qed

lemma attr_in_attrs: "a \<in> set attrs"
  by (cases a) (simp_all add: attrs_def)

lemma same_lengthsD:
  assumes "same_lengths self" and "get_attr a self = Some (Tensor xs)"
    and "get_attr b self = Some (Tensor ys)"
  shows "length xs = length ys"
proof -
  from assms(1) have "agree (get_attr a self) (get_attr b self)"
    unfolding same_lengths_def list_all_iff using attr_in_attrs by blast
  then show ?thesis by (simp add: assms(2,3) agree_def)
qed

lemma well_typedD:
  assumes "well_typed self" and "get_attr a self = Some v"
  obtains xs where "v = Tensor xs"
proof -
  from assms(1) have "get_attr a self \<noteq> Some NonTensor"
    unfolding well_typed_def list_all_iff using attr_in_attrs by blast
  with assms(2) have "v \<noteq> NonTensor" by simp
  then show ?thesis using that by (cases v) simp_all
qed

text \<open>
  Claim C10. On an object that passes both checks and has both rank fields present,
  \<open>clamp_diff_in\<close> raises \<open>TypeError\<close> as soon as one of \<open>target\<close>,
  \<open>positive_confidences\<close>, \<open>negative_confidences\<close> is absent.
\<close>

theorem clamp_diff_in_absent_field:
  assumes pr: "positive_ranks self = Some (Tensor p)"
    and nr: "negative_ranks self = Some (Tensor n)"
    and wt: "well_typed self" and sl: "same_lengths self"
    and absent: "target self = None \<or> positive_confidences self = None
                 \<or> negative_confidences self = None"
  shows "fst (clamp_diff_in mn mx self) = Some TypeError"
proof -
  let ?ex = "examples mn mx (map2 (-) p n)"
  have ln: "length n = length p"
    using same_lengthsD [OF sl, of Negative_ranks n Positive_ranks p] pr nr by simp
  have sub: "tensor_sub (Tensor p) (Tensor n) = Inr (map2 (-) p n)"
    using ln by (simp add: tensor_sub_def)
  have len: "length ?ex = length p"
    using ln by (simp add: length_examples)
  have g: "\<And>a xs. get_attr a self = Some (Tensor xs) \<Longrightarrow>
             getitem_mask (Some (Tensor xs)) ?ex = Inr (Tensor (select xs ?ex))"
  proof -
    fix a xs assume "get_attr a self = Some (Tensor xs)"
    from same_lengthsD [OF sl this, of Positive_ranks p] pr have "length xs = length p" by simp
    then show "getitem_mask (Some (Tensor xs)) ?ex = Inr (Tensor (select xs ?ex))"
      using len by (simp add: getitem_mask_def)
  qed
  have none: "getitem_mask None ?ex = Inl TypeError"
    by (simp add: getitem_mask_def)
  have gp: "getitem_mask (Some (Tensor p)) ?ex = Inr (Tensor (select p ?ex))"
    using g [of Positive_ranks p] pr by simp
  have gn: "getitem_mask (Some (Tensor n)) ?ex = Inr (Tensor (select n ?ex))"
    using g [of Negative_ranks n] nr by simp
  show ?thesis
  proof (cases "target self")
    case None
    then show ?thesis
      unfolding clamp_diff_in_def by (simp add: pr nr sub assign_def gp gn none)
  next
    case (Some tv)
    then obtain t where t: "target self = Some (Tensor t)"
      using well_typedD [OF wt, of Target tv] by auto
    have gt: "getitem_mask (Some (Tensor t)) ?ex = Inr (Tensor (select t ?ex))"
      using g [of Target t] t by simp
    show ?thesis
    proof (cases "positive_confidences self")
      case None
      then show ?thesis
        unfolding clamp_diff_in_def by (simp add: pr nr t sub assign_def gp gn gt none)
    next
      case (Some cv)
      then obtain c where c: "positive_confidences self = Some (Tensor c)"
        using well_typedD [OF wt, of Positive_confidences cv] by auto
      have gc: "getitem_mask (Some (Tensor c)) ?ex = Inr (Tensor (select c ?ex))"
        using g [of Positive_confidences c] c by simp
      from absent t c have "negative_confidences self = None" by simp
      then show ?thesis
        unfolding clamp_diff_in_def by (simp add: pr nr t c sub assign_def gp gn gt gc none)
    qed
  qed
qed

theorem clamp_diff_in_absent_field_witness:
  "fst (clamp_diff_in 0 5
     \<lparr>positive_ranks = Some (Tensor [1, 2]), negative_ranks = Some (Tensor [3, 4]),
      target = None, positive_confidences = None, negative_confidences = None\<rparr>)
   = Some TypeError"
  using clamp_diff_in_absent_field [of
     "\<lparr>positive_ranks = Some (Tensor [1, 2]), negative_ranks = Some (Tensor [3, 4]),
      target = None, positive_confidences = None, negative_confidences = None\<rparr>"
     "[1, 2]" "[3, 4]" 0 5]
  by (simp add: well_typed_def same_lengths_def attrs_def agree_def)

section \<open>SessionFeatures: accumulation and borrowed positives\<close>

text \<open>
  Claim C3 at a failing input. \<open>A\<close> holds two positive and two negative ranks,
  \<open>B\<close> is empty. \<open>A += B\<close> returns normally and leaves every field of \<open>A\<close>
  absent, where the claim asks for the fields of \<open>A\<close> followed by nothing.
\<close>

theorem iadd_drops_field_absent_in_other:
  "iadd \<lparr>positive_ranks = None, negative_ranks = None, target = None,
          positive_confidences = None, negative_confidences = None\<rparr>
        \<lparr>positive_ranks = Some (Tensor [1, 2]), negative_ranks = Some (Tensor [3, 4]),
          target = None, positive_confidences = None, negative_confidences = None\<rparr>
   = (None, \<lparr>positive_ranks = None, negative_ranks = None, target = None,
          positive_confidences = None, negative_confidences = None\<rparr>)"
  by (simp add: iadd_def assign_def call_def check_types_def check_lengths_def not_tensor_def)

text \<open>
  Claim C6 at a failing input. \<open>self\<close> has one negative example, \<open>other\<close> two
  positive ranks. The truncated ranks go to \<open>positive_ranks\<close>, the untruncated ones
  to \<open>positive_confidences\<close>, and the final length check raises \<open>ValueError\<close>.
\<close>

theorem use_positive_from_longer_other_raises:
  "use_positive_from
     \<lparr>positive_ranks = Some (Tensor [1, 2]), negative_ranks = None, target = None,
      positive_confidences = None, negative_confidences = None\<rparr>
     \<lparr>positive_ranks = None, negative_ranks = Some (Tensor [7]), target = Some (Tensor [1]),
      positive_confidences = None, negative_confidences = Some (Tensor [1])\<rparr>
   = (Some ValueError,
     \<lparr>positive_ranks = Some (Tensor [1]), negative_ranks = Some (Tensor [7]),
      target = Some (Tensor [1]), positive_confidences = Some (Tensor [1, 2]),
      negative_confidences = Some (Tensor [1])\<rparr>)"
  by (simp add: use_positive_from_def use_positive_tail_def assign_def call_def check_types_def
      check_lengths_def not_tensor_def isinstance_Tensor_def py_len_def shape0_def
      getitem_upto_def)

section \<open>ExperimentsManager: sessions and runs\<close>

text \<open>
  A fresh server and a fresh manager, two session descriptors and one parameter set,
  used to run the model on concrete inputs.
\<close>

definition example_server :: mlflow where
  "example_server = \<lparr>experiments = [(''Default'', 0)], runs = [], active_run = None,
     active_experiment = None\<rparr>"

definition example_manager :: experiments_manager where
  "example_manager = \<lparr>main_metric = ''quality'', is_loss = False, accumulators = [[1 / 2]],
     experiment_handle = None, tuning_session = None, tuning_session_id = None, run = None,
     run_params = None, run_id = None, mlflow = example_server\<rparr>"

definition session1 :: fine_tuning_session where
  "session1 = \<lparr>session_str = ''iteration / one'', session_items = [(''batch'', PScalar ''b1'')]\<rparr>"
definition session2 :: fine_tuning_session where
  "session2 = \<lparr>session_str = ''iteration / two'', session_items = []\<rparr>"
definition params1 :: fine_tuning_params where
  "params1 = \<lparr>params_id = ''p1'', params_items = [(''lr'', PList [''1'', ''2''])]\<rparr>"


definition running_manager :: experiments_manager where
  "running_manager = snd (set_run params1 (set_session session1 example_manager))"

text \<open>
  Claim C8. On the reserved initial session \<open>set_run\<close>, \<open>get_quality\<close> and
  \<open>save_model\<close> raise \<open>ValueError\<close>; without a current run \<open>get_quality\<close> and
  \<open>save_model\<close> raise \<open>ValueError\<close>. The manager is left as it was.
\<close>

theorem invalid_transitions_raise:
  "(tuning_session self = Some Initial_name \<longrightarrow>
      set_run params self = (Some ValueError, self)
      \<and> get_quality self = Inl ValueError
      \<and> save_model best_only self = (Some ValueError, self))
   \<and> (run_id self = None \<longrightarrow>
      get_quality self = Inl ValueError
      \<and> save_model best_only self = (Some ValueError, self))"
  by (simp add: set_run_def get_quality_def save_model_def)

theorem invalid_transitions_raise_witness:
  "set_run params1 (finish_session example_manager)
     = (Some ValueError, finish_session example_manager)
   \<and> get_quality (finish_session example_manager) = Inl ValueError
   \<and> save_model True (finish_session example_manager)
     = (Some ValueError, finish_session example_manager)"
proof -
  have "tuning_session (finish_session example_manager) = Some Initial_name"
    by (simp add: finish_session_def split: option.splits prod.splits)
  moreover have "run_id (finish_session example_manager) = None"
    by (simp add: finish_session_def example_manager_def split: option.splits prod.splits)
  ultimately show ?thesis
    using invalid_transitions_raise [of "finish_session example_manager" params1 True]
    by simp
qed

lemma finish_session_keeps:
  "run (finish_session self) = run self \<and> run_params (finish_session self) = run_params self
   \<and> run_id (finish_session self) = run_id self
   \<and> accumulators (finish_session self) = accumulators self
   \<and> runs (mlflow (finish_session self)) = runs (mlflow self)
   \<and> active_run (mlflow (finish_session self)) = active_run (mlflow self)"
  by (simp add: finish_session_def set_experiment_name_def set_experiment_id_def
      create_experiment_def get_experiment_id_by_name_def Let_def
      split: option.splits prod.splits)

lemma set_session_plain:
  assumes "tuning_session self \<noteq> Some Initial_name"
  shows "run (set_session session self) = run self"
    and "run_params (set_session session self) = run_params self"
    and "run_id (set_session session self) = run_id self"
    and "accumulators (set_session session self) = accumulators self"
    and "runs (mlflow (set_session session self)) = runs (mlflow self)"
    and "active_run (mlflow (set_session session self)) = active_run (mlflow self)"
    and "tuning_session (set_session session self) = Some (Session_object session)"
    and "tuning_session_id (set_session session self)
       = get_experiment_id_by_name (session_str session) (mlflow (set_session session self))"
    and "tuning_session_id (set_session session self) \<noteq> None"
    and "experiments (mlflow (set_session session self))
       = (if map_of (experiments (mlflow self)) (session_str session) = None
          then experiments (mlflow self)
               @ [(session_str session, fresh (map snd (experiments (mlflow self))))]
          else experiments (mlflow self))"
  using assms
  by (simp_all add: set_session_def set_experiment_id_def create_experiment_def
      get_experiment_id_by_name_def Let_def map_add_def split: option.splits)

lemma set_session_initial:
  assumes "tuning_session self = Some Initial_name"
  shows "set_session session self
         = set_session session ((finish_session self)\<lparr>tuning_session := None\<rparr>)"
  using assms by (simp add: set_session_def Let_def cong: option.case_cong)

lemma finish_session_initial_exists:
  "get_experiment_id_by_name INITIAL_EXPERIMENT_NAME (mlflow (finish_session self)) \<noteq> None"
  by (simp add: finish_session_def set_experiment_name_def set_experiment_id_def
      create_experiment_def get_experiment_id_by_name_def Let_def map_add_def
      split: option.splits prod.splits)

lemma set_session_keeps_experiments:
  "get_experiment_id_by_name name (mlflow self) \<noteq> None \<Longrightarrow>
   get_experiment_id_by_name name (mlflow (set_session session ((self)\<lparr>tuning_session := None\<rparr>))) \<noteq> None"
  by (auto simp add: set_session_def set_experiment_id_def create_experiment_def
      get_experiment_id_by_name_def Let_def split: option.splits)

text \<open>
  Claim C7, as the code has it. \<open>set_session\<close> never finishes a run: the run
  fields, the accumulators, the runs of the server and its active run are what they
  were. The manager enters the new session, whose identifier is that of the experiment
  named after the session. \<open>finish_session\<close> runs first exactly when the manager is on
  the reserved initial session, which makes sure the initial experiment exists;
  otherwise the experiments change by at most the new session's.
\<close>

theorem set_session_keeps_run:
  "run (set_session session self) = run self
   \<and> run_params (set_session session self) = run_params self
   \<and> run_id (set_session session self) = run_id self
   \<and> accumulators (set_session session self) = accumulators self
   \<and> runs (mlflow (set_session session self)) = runs (mlflow self)
   \<and> active_run (mlflow (set_session session self)) = active_run (mlflow self)
   \<and> tuning_session (set_session session self) = Some (Session_object session)
   \<and> tuning_session_id (set_session session self)
       = get_experiment_id_by_name (session_str session) (mlflow (set_session session self))
   \<and> tuning_session_id (set_session session self) \<noteq> None
   \<and> (tuning_session self = Some Initial_name \<longrightarrow>
        get_experiment_id_by_name INITIAL_EXPERIMENT_NAME (mlflow (set_session session self))
          \<noteq> None)
   \<and> (tuning_session self \<noteq> Some Initial_name \<longrightarrow>
        experiments (mlflow (set_session session self))
        = (if map_of (experiments (mlflow self)) (session_str session) = None
           then experiments (mlflow self)
                @ [(session_str session, fresh (map snd (experiments (mlflow self))))]
           else experiments (mlflow self)))"
proof (cases "tuning_session self = Some Initial_name")
  case False
  from set_session_plain [OF False, of session] False show ?thesis by simp
next
  case True
  let ?s = "(finish_session self)\<lparr>tuning_session := None\<rparr>"
  have ns: "tuning_session ?s \<noteq> Some Initial_name" by simp
  have eq: "set_session session self = set_session session ?s"
    using True by (rule set_session_initial)
  have k: "run ?s = run self" "run_params ?s = run_params self" "run_id ?s = run_id self"
    "accumulators ?s = accumulators self" "runs (mlflow ?s) = runs (mlflow self)"
    "active_run (mlflow ?s) = active_run (mlflow self)"
    using finish_session_keeps [of self] by simp_all
  have ini: "get_experiment_id_by_name INITIAL_EXPERIMENT_NAME
      (mlflow (set_session session ?s)) \<noteq> None"
    using set_session_keeps_experiments [OF finish_session_initial_exists] .
  show ?thesis
    unfolding eq using set_session_plain [OF ns, of session] k ini True by simp
qed

theorem set_session_keeps_run_witness:
  "run_id (set_session session2 running_manager) = run_id running_manager
   \<and> run_id running_manager = Some 1
   \<and> accumulators (set_session session2 running_manager) = [[1 / 2]]
   \<and> experiments (mlflow (set_session session2 running_manager))
       = [(''Default'', 0), (''iteration / one'', 1), (''iteration / two'', 2)]
   \<and> get_experiment_id_by_name INITIAL_EXPERIMENT_NAME
        (mlflow (set_session session1 (finish_session example_manager))) \<noteq> None"
proof -
  have a: "tuning_session running_manager \<noteq> Some Initial_name"
    "run_id running_manager = Some 1" "accumulators running_manager = [[1 / 2]]"
    "experiments (mlflow running_manager) = [(''Default'', 0), (''iteration / one'', 1)]"
    by (simp_all add: running_manager_def set_run_def set_session_def example_manager_def
      example_server_def session1_def params1_def get_experiment_id_by_name_def
      create_experiment_def set_experiment_id_def fresh_def get_run_id_by_name_def
      start_run_def new_run_def log_param_stmt_def log_param_def current_run_def
      update_run_def put_param_def convert_value_def Let_def)
  have b: "tuning_session (finish_session example_manager) = Some Initial_name"
    by (simp add: finish_session_def split: option.splits prod.splits)
  show ?thesis
    using set_session_keeps_run [of session2 running_manager]
      set_session_keeps_run [of session1 "finish_session example_manager"] a b
    by (simp add: session2_def fresh_def)
qed


text \<open>
  Claim C7 as stated fails: after \<open>set_session\<close> and \<open>set_run\<close> on a fresh
  manager, a second \<open>set_session\<close> leaves the run current and active, its status
  \<open>RUNNING\<close>, and the accumulator uncleared.
\<close>

theorem set_session_leaves_run_active:
  "run_id running_manager = Some 1
   \<and> accumulators running_manager = [[1 / 2]]
   \<and> run_id (set_session session2 running_manager) = Some 1
   \<and> run (set_session session2 running_manager) = Some 1
   \<and> accumulators (set_session session2 running_manager) = [[1 / 2]]
   \<and> active_run (mlflow (set_session session2 running_manager)) = Some 1
   \<and> map info_status (runs (mlflow (set_session session2 running_manager))) = [RUNNING]
   \<and> tuning_session (set_session session2 running_manager) = Some (Session_object session2)"
  by (simp add: running_manager_def set_run_def set_session_def example_manager_def
      example_server_def session1_def session2_def params1_def get_experiment_id_by_name_def
      create_experiment_def set_experiment_id_def fresh_def get_run_id_by_name_def
      start_run_def new_run_def log_param_stmt_def log_param_def current_run_def
      update_run_def put_param_def convert_value_def Let_def)

section \<open>ExperimentsManager: the best run\<close>

text \<open>
  The runs of an experiment that carry the \<open>model_uploaded\<close> marker, in the order
  of the query result, and those of them that have status \<open>FINISHED\<close>: the runs that
  qualify. A run is measured when it has a value of the main metric.
\<close>

definition with_marker :: "experiments_manager \<Rightarrow> nat \<Rightarrow> mlrun list" where
  "with_marker self e =
     filter (\<lambda>r. info_experiment_id r = e \<and> model_uploaded r) (runs (mlflow self))"

definition qualifying :: "experiments_manager \<Rightarrow> nat \<Rightarrow> mlrun list" where
  "qualifying self e =
     filter (\<lambda>r. info_experiment_id r = e \<and> model_uploaded r \<and> info_status r = FINISHED)
       (runs (mlflow self))"

definition measured :: "experiments_manager \<Rightarrow> mlrun \<Rightarrow> bool" where
  "measured self r = (cell (main_metric self) r \<noteq> None)"

lemma found_with_marker:
  "search_runs (Some e) model_uploaded (mlflow self) = with_marker self e"
  by (simp add: search_runs_def with_marker_def)

lemma frame_qualifying:
  "filter (\<lambda>r. info_status r = FINISHED) (search_runs (Some e) model_uploaded (mlflow self))
   = qualifying self e"
  by (simp add: search_runs_def qualifying_def conj_commute conj_left_commute)

lemma qualifying_found:
  "set (qualifying self e) \<subseteq> set (search_runs (Some e) model_uploaded (mlflow self))"
  by (auto simp: search_runs_def qualifying_def)

lemma has_column_measured:
  "has_column (main_metric self) frame = list_ex (measured self) frame"
  unfolding has_column_def measured_def [abs_def] cell_def ..

lemma set_map_filter: "set (List.map_filter f xs) = {v. \<exists>x\<in>set xs. f x = Some v}"
  by (induction xs) (auto split: option.splits)

lemma map_filter_empty: "(List.map_filter f xs = []) = (\<forall>x\<in>set xs. f x = None)"
  by (induction xs) (auto split: option.splits)

lemma filter_Cons_find: "filter P xs = r # rest \<Longrightarrow> find P xs = Some r"
  by (induction xs) (auto split: if_splits)

lemma best_from_extreme:
  assumes ex: "\<exists>x\<in>set frame. cell name x = Some v"
    and nonempty: "frame \<noteq> []" and col: "has_column name found"
    and v: "v = (if loss then Min (set (List.map_filter (cell name) frame))
                 else Max (set (List.map_filter (cell name) frame)))"
  shows "\<exists>r. (let column = List.map_filter (cell name) frame
           in if column = [] then Inl IndexError
              else
                let v = (if loss then Min (set column) else Max (set column));
                    best = filter (\<lambda>r. cell name r = Some v) frame
                in (case best of
                      [] \<Rightarrow> Inl IndexError
                    | r # rest \<Rightarrow> Inr (Some (info_run_id r), v))) = Inr (Some (info_run_id r), v)
          \<and> find (\<lambda>x. cell name x = Some v) frame = Some r"
proof -
  let ?column = "List.map_filter (cell name) frame"
  let ?best = "filter (\<lambda>r. cell name r = Some v) frame"
  from ex have "v \<in> set ?column" by (auto simp: set_map_filter)
  then have ne: "?column \<noteq> []" by auto
  from ex have "?best \<noteq> []" by (auto simp: filter_empty_conv)
  then obtain r rest where b: "?best = r # rest" by (cases ?best) auto
  then have f: "find (\<lambda>x. cell name x = Some v) frame = Some r" by (rule filter_Cons_find)
  have "(let column = ?column
           in if column = [] then Inl IndexError
              else
                let v = (if loss then Min (set column) else Max (set column));
                    best = filter (\<lambda>r. cell name r = Some v) frame
                in (case best of
                      [] \<Rightarrow> Inl IndexError
                    | r # rest \<Rightarrow> Inr (Some (info_run_id r), v))) = Inr (Some (info_run_id r), v)"
    unfolding Let_def v [symmetric] using ne b by simp
  with f show ?thesis by blast
qed

lemma no_best_when_none_qualifies:
  "qualifying self e = [] \<Longrightarrow> get_best_quality' self (Some e) = Inr (None, 0)"
  by (simp add: get_best_quality'_def frame_qualifying Let_def)

lemma best_of_measured:
  assumes h: "list_ex (measured self) (qualifying self e)"
  shows "\<exists>r v. get_best_quality' self (Some e) = Inr (Some (info_run_id r), v)
           \<and> find (\<lambda>x. cell (main_metric self) x = Some v) (qualifying self e) = Some r
           \<and> (\<forall>x\<in>set (qualifying self e). \<forall>w. cell (main_metric self) x = Some w \<longrightarrow>
                 (if is_loss self then v \<le> w else w \<le> v))"
proof -
  let ?name = "main_metric self"
  let ?frame = "qualifying self e"
  let ?found = "search_runs (Some e) model_uploaded (mlflow self)"
  let ?column = "List.map_filter (cell ?name) ?frame"
  define v where "v = (if is_loss self then Min (set ?column) else Max (set ?column))"
  from h obtain x0 w0 where x0: "x0 \<in> set ?frame" "cell ?name x0 = Some w0"
    by (auto simp: list_ex_iff measured_def)
  then have ne: "?frame \<noteq> []" by auto
  have col: "has_column ?name ?found"
    using x0 qualifying_found [of self e] by (auto simp: has_column_def list_ex_iff cell_def)
  have fin: "finite (set ?column)" by simp
  have cne: "set ?column \<noteq> {}" using x0 by (auto simp: set_map_filter)
  have vin: "v \<in> set ?column"
    unfolding v_def using Min_in [OF fin cne] Max_in [OF fin cne] by simp
  then have ex: "\<exists>x\<in>set ?frame. cell ?name x = Some v" by (auto simp: set_map_filter)
  from best_from_extreme [OF ex ne col v_def]
  obtain r where r: "(let column = ?column
           in if column = [] then Inl IndexError
              else
                let v = (if is_loss self then Min (set column) else Max (set column));
                    best = filter (\<lambda>r. cell ?name r = Some v) ?frame
                in (case best of
                      [] \<Rightarrow> Inl IndexError
                    | r # rest \<Rightarrow> Inr (Some (info_run_id r), v))) = Inr (Some (info_run_id r), v)"
    and f: "find (\<lambda>x. cell ?name x = Some v) ?frame = Some r" by blast
  have g: "get_best_quality' self (Some e) = Inr (Some (info_run_id r), v)"
    unfolding get_best_quality'_def Let_def frame_qualifying
    using ne col r [unfolded Let_def] by simp
  have ext: "\<forall>x\<in>set ?frame. \<forall>w. cell ?name x = Some w \<longrightarrow> (if is_loss self then v \<le> w else w \<le> v)"
  proof (intro ballI allI impI)
    fix x w assume "x \<in> set ?frame" "cell ?name x = Some w"
    then have "w \<in> set ?column" by (auto simp: set_map_filter)
    then show "if is_loss self then v \<le> w else w \<le> v"
      unfolding v_def using Min_le [OF fin] Max_ge [OF fin] by simp
  qed
  from g f ext show ?thesis by blast
qed

lemma no_column_raises:
  assumes "qualifying self e \<noteq> []" and "\<not> list_ex (measured self) (with_marker self e)"
  shows "get_best_quality' self (Some e) = Inl KeyError"
  unfolding get_best_quality'_def Let_def frame_qualifying
  using assms by (simp add: found_with_marker has_column_measured)

lemma no_value_raises:
  assumes q: "qualifying self e \<noteq> []" and m: "list_ex (measured self) (with_marker self e)"
    and n: "\<not> list_ex (measured self) (qualifying self e)"
  shows "get_best_quality' self (Some e) = Inl IndexError"
proof -
  from n have "List.map_filter (cell (main_metric self)) (qualifying self e) = []"
    by (simp add: map_filter_empty list_ex_iff measured_def)
  with q m show ?thesis
    unfolding get_best_quality'_def Let_def frame_qualifying
    by (simp add: found_with_marker has_column_measured)
qed

text \<open>
  Claim C1, as the code has it. When no run of the session qualifies, the result is
  the absent identifier with quality 0. When some qualifying run is measured, the
  result is a qualifying run and its value: the value is minimal among the values of
  the qualifying runs for a loss and maximal otherwise, and the run is the first one in
  query order that has this value; qualifying runs without a value are passed over.
  When runs qualify and none of them is measured, the call raises: \<open>KeyError\<close> when
  no run with the marker is measured, \<open>IndexError\<close> otherwise. \<open>get_best_quality\<close> is
  \<open>_get_best_quality\<close> on the current session.
\<close>

theorem get_best_quality_cases:
  "(qualifying self e = [] \<longrightarrow> get_best_quality' self (Some e) = Inr (None, 0))
   \<and> (list_ex (measured self) (qualifying self e) \<longrightarrow>
        (\<exists>r v. get_best_quality' self (Some e) = Inr (Some (info_run_id r), v)
           \<and> find (\<lambda>x. cell (main_metric self) x = Some v) (qualifying self e) = Some r
           \<and> (\<forall>x\<in>set (qualifying self e). \<forall>w. cell (main_metric self) x = Some w \<longrightarrow>
                 (if is_loss self then v \<le> w else w \<le> v))))
   \<and> (qualifying self e \<noteq> [] \<and> \<not> list_ex (measured self) (with_marker self e) \<longrightarrow>
        get_best_quality' self (Some e) = Inl KeyError)
   \<and> (qualifying self e \<noteq> [] \<and> list_ex (measured self) (with_marker self e)
        \<and> \<not> list_ex (measured self) (qualifying self e) \<longrightarrow>
        get_best_quality' self (Some e) = Inl IndexError)
   \<and> (tuning_session self \<noteq> Some Initial_name \<longrightarrow>
        get_best_quality self = get_best_quality' self (tuning_session_id self))"
proof (intro conjI impI)
  assume "qualifying self e = []"
  then show "get_best_quality' self (Some e) = Inr (None, 0)"
    by (rule no_best_when_none_qualifies)
next
  assume "tuning_session self \<noteq> Some Initial_name"
  then show "get_best_quality self = get_best_quality' self (tuning_session_id self)"
    by (simp add: get_best_quality_def)
next
  assume "list_ex (measured self) (qualifying self e)"
  then show "\<exists>r v. get_best_quality' self (Some e) = Inr (Some (info_run_id r), v)
           \<and> find (\<lambda>x. cell (main_metric self) x = Some v) (qualifying self e) = Some r
           \<and> (\<forall>x\<in>set (qualifying self e). \<forall>w. cell (main_metric self) x = Some w \<longrightarrow>
                 (if is_loss self then v \<le> w else w \<le> v))"
    by (rule best_of_measured)
next
  assume "qualifying self e \<noteq> [] \<and> \<not> list_ex (measured self) (with_marker self e)"
  then show "get_best_quality' self (Some e) = Inl KeyError"
    by (simp add: no_column_raises)
next
  assume "qualifying self e \<noteq> [] \<and> list_ex (measured self) (with_marker self e)
        \<and> \<not> list_ex (measured self) (qualifying self e)"
  then show "get_best_quality' self (Some e) = Inl IndexError"
    by (simp add: no_value_raises)
qed

text \<open>
  The synthetic runs of the specification: four finished runs with an uploaded model
  and metrics 0.2, 0.5, 0.1, 0.5, a finished run without a model, the current run,
  and a run of another session.
\<close>

definition scored_run :: "nat \<Rightarrow> nat \<Rightarrow> run_status \<Rightarrow> bool \<Rightarrow> real \<Rightarrow> mlrun" where
  "scored_run r e st up q =
     \<lparr>info_run_id = r, info_experiment_id = e, info_run_name = [], info_status = st,
      data_params = (if up then [(''model_uploaded'', ''1'')] else []),
      data_metrics = [(''quality'', q)], model_logged = up\<rparr>"

definition scored_manager :: "bool \<Rightarrow> experiments_manager" where
  "scored_manager loss =
     \<lparr>main_metric = ''quality'', is_loss = loss, accumulators = [],
      experiment_handle = Some 1, tuning_session = Some (Session_object session1),
      tuning_session_id = Some 1, run = Some 16, run_params = Some params1, run_id = Some 16,
      mlflow = \<lparr>experiments = [(''Default'', 0), (''iteration / one'', 1), (''iteration / two'', 2)],
        runs = [scored_run 11 1 FINISHED True (2 / 10), scored_run 12 1 FINISHED True (5 / 10),
                scored_run 13 1 FINISHED True (1 / 10), scored_run 14 1 FINISHED True (5 / 10),
                scored_run 15 1 FINISHED False (9 / 10), scored_run 16 1 RUNNING False (5 / 10),
                scored_run 17 2 FINISHED True (99 / 100)],
        active_run = Some 16, active_experiment = Some 1\<rparr>\<rparr>"

text \<open>
  The first run of a session, finished after its model was saved with
  \<open>best_only=False\<close> and before any metric was logged; and a session whose only
  finished run has no metric while a run still in progress has one. In both a run
  qualifies and no qualifying run is measured.
\<close>

definition unmeasured_manager :: experiments_manager where
  "unmeasured_manager = finish_run (snd (save_model False running_manager))"

definition half_measured_manager :: experiments_manager where
  "half_measured_manager =
     \<lparr>main_metric = ''quality'', is_loss = False, accumulators = [],
      experiment_handle = Some 1, tuning_session = Some (Session_object session1),
      tuning_session_id = Some 1, run = Some 22, run_params = Some params1, run_id = Some 22,
      mlflow = \<lparr>experiments = [(''Default'', 0), (''iteration / one'', 1)],
        runs = [(scored_run 21 1 FINISHED True 0)\<lparr>data_metrics := []\<rparr>,
                scored_run 22 1 RUNNING True (3 / 10)],
        active_run = Some 22, active_experiment = Some 1\<rparr>\<rparr>"

lemma running_manager_eq:
  "running_manager =
     \<lparr>main_metric = ''quality'', is_loss = False, accumulators = [[1 / 2]],
      experiment_handle = Some 1, tuning_session = Some (Session_object session1),
      tuning_session_id = Some 1, run = Some 1, run_params = Some params1, run_id = Some 1,
      mlflow = \<lparr>experiments = [(''Default'', 0), (''iteration / one'', 1)],
        runs = [\<lparr>info_run_id = 1, info_experiment_id = 1, info_run_name = ''p1'',
                 info_status = RUNNING,
                 data_params = [(''batch'', ''b1''), (''lr'', ''1, 2'')],
                 data_metrics = [], model_logged = False\<rparr>],
        active_run = Some 1, active_experiment = Some 1\<rparr>\<rparr>"
  by (simp add: running_manager_def set_run_def set_session_def example_manager_def
      example_server_def session1_def params1_def get_experiment_id_by_name_def
      create_experiment_def set_experiment_id_def fresh_def get_run_id_by_name_def
      start_run_def new_run_def log_param_stmt_def log_param_def current_run_def
      update_run_def put_param_def convert_value_def Let_def)

lemma unmeasured_manager_eq:
  "unmeasured_manager =
     \<lparr>main_metric = ''quality'', is_loss = False, accumulators = [[]],
      experiment_handle = Some 1, tuning_session = Some (Session_object session1),
      tuning_session_id = Some 1, run = None, run_params = None, run_id = None,
      mlflow = \<lparr>experiments = [(''Default'', 0), (''iteration / one'', 1)],
        runs = [\<lparr>info_run_id = 1, info_experiment_id = 1, info_run_name = ''p1'',
                 info_status = FINISHED,
                 data_params = [(''batch'', ''b1''), (''lr'', ''1, 2''),
                                (''model_uploaded'', ''1'')],
                 data_metrics = [], model_logged = True\<rparr>],
        active_run = None, active_experiment = Some 1\<rparr>\<rparr>"
  by (simp add: unmeasured_manager_def running_manager_eq save_model_def upload_def
      log_model_def log_param_def current_run_def update_run_def put_param_def
      finish_run_def end_run_def clear_def)

lemma qualifying_scored:
  "qualifying (scored_manager loss) 1
   = [scored_run 11 1 FINISHED True (2 / 10), scored_run 12 1 FINISHED True (5 / 10),
      scored_run 13 1 FINISHED True (1 / 10), scored_run 14 1 FINISHED True (5 / 10)]"
  by (simp add: qualifying_def scored_manager_def scored_run_def model_uploaded_def)

lemma best_scored:
  "get_best_quality' (scored_manager False) (Some 1) = Inr (Some 12, 1 / 2)"
  "get_best_quality' (scored_manager True) (Some 1) = Inr (Some 13, 1 / 10)"
  by (simp_all add: get_best_quality'_def search_runs_def scored_manager_def scored_run_def
      model_uploaded_def has_column_def cell_def Let_def del: not_None_eq)

lemma unmeasured_facts:
  "map info_run_id (qualifying unmeasured_manager 1) = [1]"
  "\<not> list_ex (measured unmeasured_manager) (with_marker unmeasured_manager 1)"
  "tuning_session unmeasured_manager \<noteq> Some Initial_name"
  "tuning_session_id unmeasured_manager = Some 1"
  by (simp_all add: unmeasured_manager_eq qualifying_def with_marker_def measured_def
      model_uploaded_def cell_def)

lemma half_measured_facts:
  "map info_run_id (qualifying half_measured_manager 1) = [21]"
  "list_ex (measured half_measured_manager) (with_marker half_measured_manager 1)"
  "\<not> list_ex (measured half_measured_manager) (qualifying half_measured_manager 1)"
  by (simp_all add: half_measured_manager_def scored_run_def qualifying_def with_marker_def
      measured_def model_uploaded_def cell_def del: not_None_eq)

text \<open>
  Claim C1 as stated fails: the finished run of \<open>unmeasured_manager\<close> carries the
  marker, so a run qualifies, and the call returns no run but raises \<open>KeyError\<close>; in
  \<open>half_measured_manager\<close> it raises \<open>IndexError\<close>.
\<close>

theorem get_best_quality_raises_without_metric:
  "map info_run_id (qualifying unmeasured_manager 1) = [1]
   \<and> get_best_quality' unmeasured_manager (Some 1) = Inl KeyError
   \<and> get_best_quality unmeasured_manager = Inl KeyError
   \<and> map info_run_id (qualifying half_measured_manager 1) = [21]
   \<and> get_best_quality' half_measured_manager (Some 1) = Inl IndexError
   \<and> get_best_quality half_measured_manager = Inl IndexError"
  by (simp add: unmeasured_manager_eq half_measured_manager_def scored_run_def qualifying_def
      get_best_quality_def get_best_quality'_def search_runs_def model_uploaded_def
      has_column_def cell_def List.map_filter_def Let_def del: not_None_eq)

theorem get_best_quality_cases_witness:
  "qualifying running_manager 1 = []
   \<and> get_best_quality' running_manager (Some 1) = Inr (None, 0)
   \<and> list_ex (measured (scored_manager False)) (qualifying (scored_manager False) 1)
   \<and> (\<exists>r v. get_best_quality' (scored_manager False) (Some 1) = Inr (Some (info_run_id r), v)
         \<and> find (\<lambda>x. cell (main_metric (scored_manager False)) x = Some v)
               (qualifying (scored_manager False) 1) = Some r
         \<and> (\<forall>x\<in>set (qualifying (scored_manager False) 1). \<forall>w.
               cell (main_metric (scored_manager False)) x = Some w \<longrightarrow>
               (if is_loss (scored_manager False) then v \<le> w else w \<le> v)))
   \<and> get_best_quality' (scored_manager False) (Some 1) = Inr (Some 12, 1 / 2)
   \<and> get_best_quality' (scored_manager True) (Some 1) = Inr (Some 13, 1 / 10)
   \<and> qualifying unmeasured_manager 1 \<noteq> []
   \<and> \<not> list_ex (measured unmeasured_manager) (with_marker unmeasured_manager 1)
   \<and> get_best_quality' unmeasured_manager (Some 1) = Inl KeyError
   \<and> get_best_quality unmeasured_manager = Inl KeyError
   \<and> qualifying half_measured_manager 1 \<noteq> []
   \<and> list_ex (measured half_measured_manager) (with_marker half_measured_manager 1)
   \<and> \<not> list_ex (measured half_measured_manager) (qualifying half_measured_manager 1)
   \<and> get_best_quality' half_measured_manager (Some 1) = Inl IndexError"
proof -
  have q0: "qualifying running_manager 1 = []"
    by (simp add: running_manager_eq qualifying_def model_uploaded_def)
  have h: "list_ex (measured (scored_manager False)) (qualifying (scored_manager False) 1)"
    unfolding qualifying_scored
    by (simp add: scored_manager_def scored_run_def measured_def cell_def del: not_None_eq)
  have u: "qualifying unmeasured_manager 1 \<noteq> []"
    using unmeasured_facts(1) by auto
  have m: "qualifying half_measured_manager 1 \<noteq> []"
    using half_measured_facts(1) by auto
  note a = get_best_quality_cases [of running_manager 1]
  note b = get_best_quality_cases [of "scored_manager False" 1]
  note c = get_best_quality_cases [of unmeasured_manager 1]
  note d = get_best_quality_cases [of half_measured_manager 1]
  from a q0 have a': "get_best_quality' running_manager (Some 1) = Inr (None, 0)" by blast
  from b h have b': "\<exists>r v. get_best_quality' (scored_manager False) (Some 1)
           = Inr (Some (info_run_id r), v)
         \<and> find (\<lambda>x. cell (main_metric (scored_manager False)) x = Some v)
               (qualifying (scored_manager False) 1) = Some r
         \<and> (\<forall>x\<in>set (qualifying (scored_manager False) 1). \<forall>w.
               cell (main_metric (scored_manager False)) x = Some w \<longrightarrow>
               (if is_loss (scored_manager False) then v \<le> w else w \<le> v))" by blast
  from c u unmeasured_facts(2)
  have c': "get_best_quality' unmeasured_manager (Some 1) = Inl KeyError" by blast
  from c unmeasured_facts(3)
  have "get_best_quality unmeasured_manager
      = get_best_quality' unmeasured_manager (tuning_session_id unmeasured_manager)" by blast
  with c' have c'': "get_best_quality unmeasured_manager = Inl KeyError"
    by (simp add: unmeasured_facts(4))
  from d m half_measured_facts(2,3)
  have d': "get_best_quality' half_measured_manager (Some 1) = Inl IndexError" by blast
  from q0 a' h b' best_scored u unmeasured_facts(2) c' c'' m half_measured_facts(2,3) d'
  show ?thesis by blast
qed

section \<open>ExperimentsManager: saving the model\<close>

text \<open>
  A run is marked when the server holds a model for it and its \<open>model_uploaded\<close>
  parameter is 1. The parameter of a run is conflicting when it is set to another
  value, which \<open>log_param\<close> refuses to overwrite.
\<close>

definition marked :: "nat \<Rightarrow> experiments_manager \<Rightarrow> bool" where
  "marked r self =
     list_ex (\<lambda>x. info_run_id x = r \<and> model_logged x \<and> model_uploaded x) (runs (mlflow self))"

definition conflicting :: "nat \<Rightarrow> experiments_manager \<Rightarrow> bool" where
  "conflicting r self =
     list_ex (\<lambda>x. info_run_id x = r \<and> map_of (data_params x) ''model_uploaded'' \<noteq> None
                   \<and> map_of (data_params x) ''model_uploaded'' \<noteq> Some ''1'')
       (runs (mlflow self))"

text \<open>The rows of a session's frame: every run of its experiment.\<close>

definition session_runs :: "experiments_manager \<Rightarrow> nat \<Rightarrow> mlrun list" where
  "session_runs self e = filter (\<lambda>x. info_experiment_id x = e) (runs (mlflow self))"

lemma frame_session_runs:
  "search_runs (Some e) (\<lambda>r. True) (mlflow self) = session_runs self e"
  by (simp add: search_runs_def session_runs_def)

lemma put_param_uploaded:
  assumes "map_of (data_params x) ''model_uploaded'' = None
           \<or> map_of (data_params x) ''model_uploaded'' = Some ''1''"
  shows "model_uploaded (put_param ''model_uploaded'' ''1'' x)"
  using assms by (auto simp: model_uploaded_def put_param_def map_add_def)

lemma list_ex_update:
  assumes "\<And>x. P (f x) = P x"
  shows "list_ex P (map (\<lambda>x. if c x then f x else x) xs) = list_ex P xs"
  by (induction xs) (simp_all add: assms)

lemma upload_active:
  assumes act: "active_run (mlflow self) = Some r"
    and free: "\<not> conflicting r self"
  shows "upload self =
     (None, self\<lparr>mlflow := update_run r (put_param ''model_uploaded'' ''1'')
                (update_run r (\<lambda>x. x\<lparr>model_logged := True\<rparr>) (mlflow self))\<rparr>)"
proof -
  let ?st = "update_run r (\<lambda>x. x\<lparr>model_logged := True\<rparr>) (mlflow self)"
  have lm: "log_model (mlflow self) = ?st"
    using act by (simp add: log_model_def current_run_def)
  have act': "active_run ?st = Some r"
    using act by (simp add: update_run_def)
  have "\<not> list_ex (\<lambda>x. info_run_id x = r \<and> map_of (data_params x) ''model_uploaded'' \<noteq> None
                   \<and> map_of (data_params x) ''model_uploaded'' \<noteq> Some ''1'') (runs ?st)"
    using free unfolding conflicting_def update_run_def
    by (simp add: list_ex_update)
  then have "log_param ''model_uploaded'' ''1'' ?st
      = (None, update_run r (put_param ''model_uploaded'' ''1'') ?st)"
    using act' by (simp add: log_param_def current_run_def)
  then show ?thesis
    by (simp add: upload_def lm)
qed

lemma upload_marks:
  assumes act: "active_run (mlflow self) = Some r"
    and free: "\<not> conflicting r self"
    and ex: "list_ex (\<lambda>x. info_run_id x = r) (runs (mlflow self))"
  shows "fst (upload self) = None \<and> marked r (snd (upload self))"
proof -
  from ex obtain x where x: "x \<in> set (runs (mlflow self))" "info_run_id x = r"
    by (auto simp: list_ex_iff)
  with free have p: "map_of (data_params x) ''model_uploaded'' = None
           \<or> map_of (data_params x) ''model_uploaded'' = Some ''1''"
    by (auto simp: conflicting_def list_ex_iff)
  let ?y = "put_param ''model_uploaded'' ''1'' (x\<lparr>model_logged := True\<rparr>)"
  have "model_uploaded ?y"
    by (rule put_param_uploaded) (use p in simp)
  moreover have "model_logged ?y" "info_run_id ?y = r"
    using x by (simp_all add: put_param_def)
  moreover have "?y \<in> set (runs (update_run r (put_param ''model_uploaded'' ''1'')
                (update_run r (\<lambda>x. x\<lparr>model_logged := True\<rparr>) (mlflow self))))"
    using x by (force simp: update_run_def)
  ultimately show ?thesis
    unfolding upload_active [OF act free] marked_def list_ex_iff by auto
qed

text \<open>
  The quality of the current run, when that run is one row \<open>x\<close> of the session's
  frame: the main metric of \<open>x\<close> (NaN when \<open>x\<close> has none), provided some run of the
  session has the metric; \<open>KeyError\<close> when none has.
\<close>

lemma get_quality_row:
  assumes session: "tuning_session self \<noteq> Some Initial_name"
    and sid: "tuning_session_id self = Some e"
    and current: "run_id self = Some r"
    and row: "filter (\<lambda>x. info_run_id x = r) (session_runs self e) = [x]"
  shows "get_quality self =
     (if list_ex (measured self) (session_runs self e) then Inr (cell (main_metric self) x)
      else Inl KeyError)"
proof -
  have "filter (\<lambda>x. Some (info_run_id x) = run_id self) (session_runs self e) = [x]"
    using row current by simp
  then show ?thesis
    unfolding get_quality_def Let_def sid frame_session_runs has_column_measured
    using session current by simp
qed

text \<open>
  Claim C2, as the code has it. The manager is in a session with experiment \<open>e\<close>;
  its current run \<open>r\<close> is the server's active run, is the row \<open>x\<close> of the session's
  frame, and its \<open>model_uploaded\<close> parameter is unset or 1. Then

    \<^item> \<open>save_model\<close> with \<open>best_only=False\<close> returns normally and the run is marked;

    \<^item> the current quality is the main metric of \<open>x\<close>, NaN when \<open>x\<close> has none, and
      reading it raises \<open>KeyError\<close> when no run of the session has the metric;

    \<^item> \<open>save_model\<close> with \<open>best_only=True\<close> raises what reading the current quality
      or the best run raises and then changes nothing; otherwise it does what
      \<open>best_only=False\<close> does exactly when there is no best run, or the current
      quality is a number at least as good as the best one (\<open>\<le>\<close> for a loss,
      \<open>\<ge>\<close> otherwise), and else changes nothing;

    \<^item> while no run of the session qualifies, it uploads if some run of the session
      has the metric and raises \<open>KeyError\<close> if none has.
\<close>

theorem save_model_decision:
  assumes session: "tuning_session self \<noteq> Some Initial_name"
    and sid: "tuning_session_id self = Some e"
    and current: "run_id self = Some r"
    and act: "active_run (mlflow self) = Some r"
    and row: "filter (\<lambda>x. info_run_id x = r) (session_runs self e) = [x]"
    and free: "\<not> conflicting r self"
  shows "fst (save_model False self) = None
     \<and> marked r (snd (save_model False self))
     \<and> get_quality self =
         (if list_ex (measured self) (session_runs self e)
          then Inr (cell (main_metric self) x) else Inl KeyError)
     \<and> save_model True self =
         (if \<not> list_ex (measured self) (session_runs self e) then (Some KeyError, self)
          else case get_best_quality self of
                 Inl error \<Rightarrow> (Some error, self)
               | Inr (best_run_id, best_quality) \<Rightarrow>
                   (case cell (main_metric self) x of
                      None \<Rightarrow>
                        if best_run_id = None then save_model False self else (None, self)
                    | Some c \<Rightarrow>
                        if best_run_id = None
                           \<or> (if is_loss self then c \<le> best_quality else c \<ge> best_quality)
                        then save_model False self else (None, self)))
     \<and> (qualifying self e = [] \<longrightarrow>
          save_model True self =
            (if list_ex (measured self) (session_runs self e) then save_model False self
             else (Some KeyError, self)))"
proof -
  have f: "save_model False self = upload self"
    using session current by (simp add: save_model_def)
  from row have "x \<in> set (filter (\<lambda>x. info_run_id x = r) (session_runs self e))" by simp
  then have "x \<in> set (runs (mlflow self))" "info_run_id x = r"
    by (simp_all add: session_runs_def)
  then have ex: "list_ex (\<lambda>x. info_run_id x = r) (runs (mlflow self))"
    by (auto simp: list_ex_iff)
  have a: "fst (save_model False self) = None \<and> marked r (snd (save_model False self))"
    unfolding f using act free ex by (rule upload_marks)
  note q = get_quality_row [OF session sid current row]
  have t: "save_model True self =
      (case get_quality self of
         Inl error \<Rightarrow> (Some error, self)
       | Inr current_quality \<Rightarrow>
           (case get_best_quality self of
              Inl error \<Rightarrow> (Some error, self)
            | Inr best \<Rightarrow>
                if fst best = None \<or> not_worse (is_loss self) current_quality (snd best)
                then save_model False self
                else (None, self)))"
    unfolding f using session current by (simp add: save_model_def)
  have b: "save_model True self =
         (if \<not> list_ex (measured self) (session_runs self e) then (Some KeyError, self)
          else case get_best_quality self of
                 Inl error \<Rightarrow> (Some error, self)
               | Inr (best_run_id, best_quality) \<Rightarrow>
                   (case cell (main_metric self) x of
                      None \<Rightarrow>
                        if best_run_id = None then save_model False self else (None, self)
                    | Some c \<Rightarrow>
                        if best_run_id = None
                           \<or> (if is_loss self then c \<le> best_quality else c \<ge> best_quality)
                        then save_model False self else (None, self)))"
  proof (cases "list_ex (measured self) (session_runs self e)")
    case False
    then show ?thesis unfolding t q by simp
  next
    case True
    show ?thesis
    proof (cases "get_best_quality self")
      case (Inl error)
      then show ?thesis unfolding t q using True by simp
    next
      case (Inr best)
      obtain best_run_id best_quality where best: "best = (best_run_id, best_quality)"
        by (cases best) auto
      show ?thesis
        unfolding t q using True Inr best
        by (cases "cell (main_metric self) x") (simp_all add: not_worse_def)
    qed
  qed
  have c: "qualifying self e = [] \<longrightarrow>
          save_model True self =
            (if list_ex (measured self) (session_runs self e) then save_model False self
             else (Some KeyError, self))"
  proof
    assume "qualifying self e = []"
    then have "get_best_quality self = Inr (None, 0)"
      using session sid by (simp add: get_best_quality_def no_best_when_none_qualifies)
    then show "save_model True self =
            (if list_ex (measured self) (session_runs self e) then save_model False self
             else (Some KeyError, self))"
      unfolding t q by simp
  qed
  from a q b c show ?thesis by blast
qed

text \<open>
  The first run of a session once its training has logged the quality \<open>q\<close>; and the
  synthetic runs with a current run that has logged no quality.
\<close>

definition trained_manager :: "real \<Rightarrow> experiments_manager" where
  "trained_manager q =
     running_manager\<lparr>mlflow :=
       update_run 1 (\<lambda>x. x\<lparr>data_metrics := [(''quality'', q)]\<rparr>) (mlflow running_manager)\<rparr>"

definition untrained_manager :: "bool \<Rightarrow> experiments_manager" where
  "untrained_manager loss =
     (scored_manager loss)\<lparr>mlflow :=
       update_run 16 (\<lambda>x. x\<lparr>data_metrics := []\<rparr>) (mlflow (scored_manager loss))\<rparr>"

lemma scored_facts:
  "tuning_session (scored_manager loss) \<noteq> Some Initial_name"
  "tuning_session_id (scored_manager loss) = Some 1"
  "run_id (scored_manager loss) = Some 16"
  "active_run (mlflow (scored_manager loss)) = Some 16"
  "filter (\<lambda>x. info_run_id x = 16) (session_runs (scored_manager loss) 1)
   = [scored_run 16 1 RUNNING False (5 / 10)]"
  "\<not> conflicting 16 (scored_manager loss)"
  by (simp_all add: scored_manager_def scored_run_def conflicting_def session_runs_def)

lemma scored_more:
  "\<not> marked 16 (scored_manager loss)"
  "is_loss (scored_manager loss) = loss"
  "list_ex (measured (scored_manager loss)) (session_runs (scored_manager loss) 1)"
  "cell (main_metric (scored_manager loss)) (scored_run 16 1 RUNNING False (5 / 10))
   = Some (1 / 2)"
  by (simp_all add: scored_manager_def scored_run_def marked_def session_runs_def
      measured_def cell_def del: not_None_eq)

lemma scored_best:
  "get_best_quality (scored_manager False) = Inr (Some 12, 1 / 2)"
  "get_best_quality (scored_manager True) = Inr (Some 13, 1 / 10)"
  using best_scored by (simp_all add: get_best_quality_def scored_facts)

lemma untrained_facts:
  "tuning_session (untrained_manager loss) \<noteq> Some Initial_name"
  "tuning_session_id (untrained_manager loss) = Some 1"
  "run_id (untrained_manager loss) = Some 16"
  "active_run (mlflow (untrained_manager loss)) = Some 16"
  "filter (\<lambda>x. info_run_id x = 16) (session_runs (untrained_manager loss) 1)
   = [(scored_run 16 1 RUNNING False (5 / 10))\<lparr>data_metrics := []\<rparr>]"
  "\<not> conflicting 16 (untrained_manager loss)"
  by (simp_all add: untrained_manager_def scored_manager_def scored_run_def conflicting_def
      session_runs_def update_run_def)

lemma untrained_more:
  "list_ex (measured (untrained_manager loss)) (session_runs (untrained_manager loss) 1)"
  "cell (main_metric (untrained_manager loss))
     ((scored_run 16 1 RUNNING False (5 / 10))\<lparr>data_metrics := []\<rparr>) = None"
  "get_best_quality (untrained_manager False) = Inr (Some 12, 1 / 2)"
  by (simp_all add: untrained_manager_def scored_manager_def scored_run_def
      session_runs_def update_run_def measured_def cell_def get_best_quality_def
      get_best_quality'_def search_runs_def model_uploaded_def has_column_def Let_def
      del: not_None_eq)

lemma running_facts:
  "tuning_session running_manager \<noteq> Some Initial_name"
  "tuning_session_id running_manager = Some 1"
  "run_id running_manager = Some 1"
  "active_run (mlflow running_manager) = Some 1"
  "filter (\<lambda>x. info_run_id x = 1) (session_runs running_manager 1)
   = [\<lparr>info_run_id = 1, info_experiment_id = 1, info_run_name = ''p1'',
       info_status = RUNNING, data_params = [(''batch'', ''b1''), (''lr'', ''1, 2'')],
       data_metrics = [], model_logged = False\<rparr>]"
  "\<not> conflicting 1 running_manager"
  by (simp_all add: running_manager_eq conflicting_def session_runs_def)

lemma running_more:
  "qualifying running_manager 1 = []"
  "\<not> list_ex (measured running_manager) (session_runs running_manager 1)"
  "\<not> marked 1 running_manager"
  by (simp_all add: running_manager_eq qualifying_def session_runs_def measured_def
      cell_def marked_def model_uploaded_def)

lemma trained_facts:
  "tuning_session (trained_manager q) \<noteq> Some Initial_name"
  "tuning_session_id (trained_manager q) = Some 1"
  "run_id (trained_manager q) = Some 1"
  "active_run (mlflow (trained_manager q)) = Some 1"
  "filter (\<lambda>x. info_run_id x = 1) (session_runs (trained_manager q) 1)
   = [\<lparr>info_run_id = 1, info_experiment_id = 1, info_run_name = ''p1'',
       info_status = RUNNING, data_params = [(''batch'', ''b1''), (''lr'', ''1, 2'')],
       data_metrics = [(''quality'', q)], model_logged = False\<rparr>]"
  "\<not> conflicting 1 (trained_manager q)"
  by (simp_all add: trained_manager_def running_manager_eq conflicting_def session_runs_def
      update_run_def)

lemma trained_more:
  "qualifying (trained_manager q) 1 = []"
  "list_ex (measured (trained_manager q)) (session_runs (trained_manager q) 1)"
  "\<not> marked 1 (trained_manager q)"
  "cell (main_metric (trained_manager q))
     \<lparr>info_run_id = 1, info_experiment_id = 1, info_run_name = ''p1'',
      info_status = RUNNING, data_params = [(''batch'', ''b1''), (''lr'', ''1, 2'')],
      data_metrics = [(''quality'', q)], model_logged = False\<rparr> = Some q"
  by (simp_all add: trained_manager_def running_manager_eq qualifying_def session_runs_def
      update_run_def measured_def cell_def marked_def model_uploaded_def del: not_None_eq)

text \<open>
  Claim C2 as stated fails: \<open>running_manager\<close> is on the very first run of its
  session, no run qualifies, and \<open>save_model\<close> with \<open>best_only=True\<close> raises
  \<open>KeyError\<close> and uploads nothing, because the run has not logged the main metric.
\<close>

theorem first_run_without_metric_is_not_uploaded:
  "run_id running_manager = Some 1
   \<and> active_run (mlflow running_manager) = Some 1
   \<and> qualifying running_manager 1 = []
   \<and> get_best_quality running_manager = Inr (None, 0)
   \<and> save_model True running_manager = (Some KeyError, running_manager)
   \<and> \<not> marked 1 (snd (save_model True running_manager))"
  by (simp add: running_manager_eq save_model_def get_quality_def get_best_quality_def
      get_best_quality'_def search_runs_def has_column_def qualifying_def marked_def
      model_uploaded_def Let_def)

theorem save_model_decision_witness:
  "fst (save_model False (scored_manager False)) = None
   \<and> marked 16 (snd (save_model False (scored_manager False)))
   \<and> \<not> marked 16 (scored_manager False)
   \<and> get_quality (scored_manager False) = Inr (Some (1 / 2))
   \<and> get_best_quality (scored_manager False) = Inr (Some 12, 1 / 2)
   \<and> save_model True (scored_manager False) = save_model False (scored_manager False)
   \<and> get_quality (scored_manager True) = Inr (Some (1 / 2))
   \<and> get_best_quality (scored_manager True) = Inr (Some 13, 1 / 10)
   \<and> save_model True (scored_manager True) = (None, scored_manager True)
   \<and> get_quality (untrained_manager False) = Inr None
   \<and> get_best_quality (untrained_manager False) = Inr (Some 12, 1 / 2)
   \<and> save_model True (untrained_manager False) = (None, untrained_manager False)
   \<and> qualifying (trained_manager (7 / 10)) 1 = []
   \<and> get_quality (trained_manager (7 / 10)) = Inr (Some (7 / 10))
   \<and> save_model True (trained_manager (7 / 10)) = save_model False (trained_manager (7 / 10))
   \<and> marked 1 (snd (save_model True (trained_manager (7 / 10))))
   \<and> \<not> marked 1 (trained_manager (7 / 10))
   \<and> qualifying running_manager 1 = []
   \<and> get_quality running_manager = Inl KeyError
   \<and> save_model True running_manager = (Some KeyError, running_manager)
   \<and> marked 1 (snd (save_model False running_manager))"
proof -
  note t1 = save_model_decision [OF scored_facts [of False]]
  note t2 = save_model_decision [OF scored_facts [of True]]
  note t3 = save_model_decision [OF untrained_facts [of False]]
  note t4 = save_model_decision [OF trained_facts [of "7 / 10"]]
  note t5 = save_model_decision [OF running_facts]
  from t1 have a: "fst (save_model False (scored_manager False)) = None"
    "marked 16 (snd (save_model False (scored_manager False)))" by blast+
  from t1 have "get_quality (scored_manager False) =
         (if list_ex (measured (scored_manager False)) (session_runs (scored_manager False) 1)
          then Inr (cell (main_metric (scored_manager False))
                 (scored_run 16 1 RUNNING False (5 / 10))) else Inl KeyError)" by blast
  then have b: "get_quality (scored_manager False) = Inr (Some (1 / 2))"
    using scored_more by simp
  from t1 have "save_model True (scored_manager False) =
         (if \<not> list_ex (measured (scored_manager False)) (session_runs (scored_manager False) 1)
          then (Some KeyError, scored_manager False)
          else case get_best_quality (scored_manager False) of
                 Inl error \<Rightarrow> (Some error, scored_manager False)
               | Inr (best_run_id, best_quality) \<Rightarrow>
                   (case cell (main_metric (scored_manager False))
                           (scored_run 16 1 RUNNING False (5 / 10)) of
                      None \<Rightarrow>
                        if best_run_id = None then save_model False (scored_manager False)
                        else (None, scored_manager False)
                    | Some c \<Rightarrow>
                        if best_run_id = None
                           \<or> (if is_loss (scored_manager False) then c \<le> best_quality
                               else c \<ge> best_quality)
                        then save_model False (scored_manager False)
                        else (None, scored_manager False)))" by blast
  then have c: "save_model True (scored_manager False) = save_model False (scored_manager False)"
    using scored_more scored_best by simp
  from t2 have "get_quality (scored_manager True) =
         (if list_ex (measured (scored_manager True)) (session_runs (scored_manager True) 1)
          then Inr (cell (main_metric (scored_manager True))
                 (scored_run 16 1 RUNNING False (5 / 10))) else Inl KeyError)" by blast
  then have d: "get_quality (scored_manager True) = Inr (Some (1 / 2))"
    using scored_more by simp
  from t2 have "save_model True (scored_manager True) =
         (if \<not> list_ex (measured (scored_manager True)) (session_runs (scored_manager True) 1)
          then (Some KeyError, scored_manager True)
          else case get_best_quality (scored_manager True) of
                 Inl error \<Rightarrow> (Some error, scored_manager True)
               | Inr (best_run_id, best_quality) \<Rightarrow>
                   (case cell (main_metric (scored_manager True))
                           (scored_run 16 1 RUNNING False (5 / 10)) of
                      None \<Rightarrow>
                        if best_run_id = None then save_model False (scored_manager True)
                        else (None, scored_manager True)
                    | Some c \<Rightarrow>
                        if best_run_id = None
                           \<or> (if is_loss (scored_manager True) then c \<le> best_quality
                               else c \<ge> best_quality)
                        then save_model False (scored_manager True)
                        else (None, scored_manager True)))" by blast
  then have e: "save_model True (scored_manager True) = (None, scored_manager True)"
    using scored_more scored_best by simp
  from t3 have "get_quality (untrained_manager False) =
         (if list_ex (measured (untrained_manager False))
               (session_runs (untrained_manager False) 1)
          then Inr (cell (main_metric (untrained_manager False))
                 ((scored_run 16 1 RUNNING False (5 / 10))\<lparr>data_metrics := []\<rparr>))
          else Inl KeyError)" by blast
  then have f: "get_quality (untrained_manager False) = Inr None"
    using untrained_more by simp
  from t3 have "save_model True (untrained_manager False) =
         (if \<not> list_ex (measured (untrained_manager False))
                 (session_runs (untrained_manager False) 1)
          then (Some KeyError, untrained_manager False)
          else case get_best_quality (untrained_manager False) of
                 Inl error \<Rightarrow> (Some error, untrained_manager False)
               | Inr (best_run_id, best_quality) \<Rightarrow>
                   (case cell (main_metric (untrained_manager False))
                           ((scored_run 16 1 RUNNING False (5 / 10))\<lparr>data_metrics := []\<rparr>) of
                      None \<Rightarrow>
                        if best_run_id = None then save_model False (untrained_manager False)
                        else (None, untrained_manager False)
                    | Some c \<Rightarrow>
                        if best_run_id = None
                           \<or> (if is_loss (untrained_manager False) then c \<le> best_quality
                               else c \<ge> best_quality)
                        then save_model False (untrained_manager False)
                        else (None, untrained_manager False)))" by blast
  then have g: "save_model True (untrained_manager False) = (None, untrained_manager False)"
    using untrained_more by simp
  from t4 have "get_quality (trained_manager (7 / 10)) =
         (if list_ex (measured (trained_manager (7 / 10)))
               (session_runs (trained_manager (7 / 10)) 1)
          then Inr (cell (main_metric (trained_manager (7 / 10)))
                 \<lparr>info_run_id = 1, info_experiment_id = 1, info_run_name = ''p1'',
                  info_status = RUNNING,
                  data_params = [(''batch'', ''b1''), (''lr'', ''1, 2'')],
                  data_metrics = [(''quality'', 7 / 10)], model_logged = False\<rparr>)
          else Inl KeyError)" by blast
  then have h: "get_quality (trained_manager (7 / 10)) = Inr (Some (7 / 10))"
    using trained_more by simp
  from t4 trained_more(1) [of "7 / 10"]
  have "save_model True (trained_manager (7 / 10)) =
            (if list_ex (measured (trained_manager (7 / 10)))
                  (session_runs (trained_manager (7 / 10)) 1)
             then save_model False (trained_manager (7 / 10))
             else (Some KeyError, trained_manager (7 / 10)))" by blast
  then have i: "save_model True (trained_manager (7 / 10))
      = save_model False (trained_manager (7 / 10))"
    using trained_more by simp
  from t4 have "marked 1 (snd (save_model False (trained_manager (7 / 10))))" by blast
  with i have j: "marked 1 (snd (save_model True (trained_manager (7 / 10))))" by simp
  from t5 have "get_quality running_manager =
         (if list_ex (measured running_manager) (session_runs running_manager 1)
          then Inr (cell (main_metric running_manager)
                 \<lparr>info_run_id = 1, info_experiment_id = 1, info_run_name = ''p1'',
                  info_status = RUNNING,
                  data_params = [(''batch'', ''b1''), (''lr'', ''1, 2'')],
                  data_metrics = [], model_logged = False\<rparr>)
          else Inl KeyError)" by blast
  then have k: "get_quality running_manager = Inl KeyError"
    using running_more by simp
  from t5 running_more(1)
  have "save_model True running_manager =
            (if list_ex (measured running_manager) (session_runs running_manager 1)
             then save_model False running_manager
             else (Some KeyError, running_manager))" by blast
  then have l: "save_model True running_manager = (Some KeyError, running_manager)"
    using running_more by simp
  from t5 have m: "marked 1 (snd (save_model False running_manager))" by blast
  from a b c d e f g h i j k l m scored_more(1) [of False] scored_best untrained_more(3)
    trained_more(1,3) [of "7 / 10"] running_more(1)
  show ?thesis by blast
qed

section \<open>Fine-tuning orchestration: what a failing trial does\<close>

text \<open>
  Environments used to run the orchestration. In \<open>failing_environment\<close> the first
  of two trials raises during training and the second would train without error. In
  \<open>training_environment\<close> a training logs the quality 0.5 to the active run, except
  that of \<open>params2\<close>, which raises; the search suggests \<open>params1\<close> first and
  \<open>params2\<close> afterwards. No call outside the \<open>try\<close> block fails in either.
\<close>

definition params2 :: fine_tuning_params where
  "params2 = \<lparr>params_id = ''p2'', params_items = []\<rparr>"

definition params3 :: fine_tuning_params where
  "params3 = \<lparr>params_id = ''p3'', params_items = []\<rparr>"

definition failing_environment :: environment where
  "failing_environment =
     \<lparr>get_top_params = (\<lambda>t. Inr (Some [params1, params2])),
      set_session_raises = (\<lambda>t. None),
      get_last_model = (\<lambda>t. None),
      torch_save = (None, True),
      fit = (\<lambda>p t. if params_id p = ''p1'' then (Some Exception, t) else (None, t)),
      suggest = (\<lambda>trials. params1),
      os_remove_raises = None,
      finish_session_raises = (\<lambda>t. None)\<rparr>"

definition log_quality :: "real \<Rightarrow> experiments_manager \<Rightarrow> experiments_manager" where
  "log_quality q t =
     (case active_run (mlflow t) of
        None \<Rightarrow> t
      | Some r \<Rightarrow>
          t\<lparr>mlflow := update_run r (\<lambda>x. x\<lparr>data_metrics := [(''quality'', q)]\<rparr>) (mlflow t)\<rparr>)"

definition training_environment :: "fine_tuning_params list option \<Rightarrow> environment" where
  "training_environment best =
     \<lparr>get_top_params = (\<lambda>t. Inr best),
      set_session_raises = (\<lambda>t. None),
      get_last_model = (\<lambda>t. None),
      torch_save = (None, True),
      fit = (\<lambda>p t. if params_id p = ''p2'' then (Some Exception, t)
                    else (None, log_quality (1 / 2) t)),
      suggest = (\<lambda>trials. if trials = [] then params1 else params2),
      os_remove_raises = None,
      finish_session_raises = (\<lambda>t. None)\<rparr>"

definition sweep1 :: sweep where
  "sweep1 = \<lparr>tracker = set_session session1 example_manager, initial_model_file = True,
             started = []\<rparr>"

text \<open>The state of the sweep after the trial of \<open>params1\<close> has trained.\<close>

definition sweep2 :: sweep where
  "sweep2 =
     \<lparr>tracker =
        \<lparr>main_metric = ''quality'', is_loss = False, accumulators = [[]],
         experiment_handle = Some 1, tuning_session = Some (Session_object session1),
         tuning_session_id = Some 1, run = None, run_params = None, run_id = None,
         mlflow = \<lparr>experiments = [(''Default'', 0), (''iteration / one'', 1)],
           runs = [\<lparr>info_run_id = 1, info_experiment_id = 1, info_run_name = ''p1'',
                    info_status = FINISHED,
                    data_params = [(''batch'', ''b1''), (''lr'', ''1, 2''),
                                   (''model_uploaded'', ''1'')],
                    data_metrics = [(''quality'', 1 / 2)], model_logged = True\<rparr>],
           active_run = None, active_experiment = Some 1\<rparr>\<rparr>,
      initial_model_file = True, started = [params1]\<rparr>"

lemma one_step_started:
  assumes "finetune_embedding_model_one_step env p s = (r, s')"
  shows "started s' = started s @ [p]" and "initial_model_file s' = initial_model_file s"
  using assms by (auto simp: finetune_embedding_model_one_step_def split: prod.splits)

lemma for_best_params_normal:
  assumes "for_best_params env ps s = (None, s')"
  shows "started s' = started s @ ps"
  using assms
proof (induction ps arbitrary: s)
  case Nil
  then show ?case by simp
next
  case (Cons p ps)
  obtain r1 s1 where step: "finetune_embedding_model_one_step env p s = (r1, s1)"
    by (cases "finetune_embedding_model_one_step env p s") auto
  show ?case
  proof (cases r1)
    case (Inl e)
    with Cons.prems step show ?thesis by simp
  next
    case (Inr q)
    with Cons.prems step have "for_best_params env ps s1 = (None, s')" by simp
    from Cons.IH [OF this] one_step_started(1) [OF step] show ?thesis by simp
  qed
qed

lemma for_best_params_append:
  assumes "for_best_params env pre s = (None, sp)"
  shows "for_best_params env (pre @ ps) s = for_best_params env ps sp"
  using assms
proof (induction pre arbitrary: s)
  case Nil
  then show ?case by simp
next
  case (Cons p pre)
  obtain r1 s1 where step: "finetune_embedding_model_one_step env p s = (r1, s1)"
    by (cases "finetune_embedding_model_one_step env p s") auto
  show ?case
  proof (cases r1)
    case (Inl e)
    with Cons.prems step show ?thesis by simp
  next
    case (Inr q)
    with Cons.prems step have "for_best_params env pre s1 = (None, sp)" by simp
    from Cons.IH [OF this] step Inr show ?thesis by simp
  qed
qed

text \<open>
  The loop ends with the first trial that raises: the trials after it are not
  started.
\<close>

lemma for_best_params_stops:
  assumes pre: "for_best_params env pre s = (None, sp)"
    and p: "finetune_embedding_model_one_step env p sp = (Inl e, s')"
  shows "for_best_params env (pre @ p # post) s = (Some e, s')"
    and "started s' = started s @ pre @ [p]"
proof -
  show "for_best_params env (pre @ p # post) s = (Some e, s')"
    unfolding for_best_params_append [OF pre] using p by simp
  show "started s' = started s @ pre @ [p]"
    using for_best_params_normal [OF pre] one_step_started(1) [OF p] by simp
qed

lemma fmin_normal:
  assumes "fmin env k trials s = (None, trials', sk)"
  shows "length trials' = length trials + k
     \<and> started sk = started s @ map fst (drop (length trials) trials')
     \<and> take (length trials) trials' = trials"
  using assms
proof (induction k arbitrary: trials s)
  case 0
  then show ?case by simp
next
  case (Suc k)
  obtain r1 s1 where step:
    "finetune_embedding_model_one_step env (suggest env trials) s = (r1, s1)"
    by (cases "finetune_embedding_model_one_step env (suggest env trials) s") auto
  show ?case
  proof (cases r1)
    case (Inl e)
    with Suc.prems step show ?thesis by simp
  next
    case (Inr q)
    let ?t = "trials @ [(suggest env trials, objective_value (is_loss (tracker s1)) q)]"
    from Suc.prems step Inr have rest: "fmin env k ?t s1 = (None, trials', sk)" by simp
    from Suc.IH [OF rest]
    have len: "length trials' = length ?t + k"
      and st: "started sk = started s1 @ map fst (drop (length ?t) trials')"
      and tk: "take (length ?t) trials' = ?t" by blast+
    from tk have tk': "take (Suc (length trials)) trials' = ?t" by simp
    have lt: "length trials < length trials'" using len by simp
    from tk' have "take (length trials) (take (Suc (length trials)) trials')
        = take (length trials) ?t" by simp
    then have a: "take (length trials) trials' = trials" by simp
    from tk' lt have "trials' ! length trials = ?t ! length trials"
      by (metis lessI nth_take)
    then have nth: "trials' ! length trials
        = (suggest env trials, objective_value (is_loss (tracker s1)) q)" by simp
    have "drop (length trials) trials'
        = trials' ! length trials # drop (Suc (length trials)) trials'"
      using lt by (simp add: Cons_nth_drop_Suc)
    then have "map fst (drop (length trials) trials')
        = suggest env trials # map fst (drop (Suc (length trials)) trials')"
      using nth by simp
    then have b: "started sk = started s @ map fst (drop (length trials) trials')"
      using st one_step_started(1) [OF step] by simp
    from len a b show ?thesis by simp
  qed
qed

lemma fmin_add:
  assumes "fmin env k trials s = (None, trials', sk)"
  shows "fmin env (k + m) trials s = fmin env m trials' sk"
  using assms
proof (induction k arbitrary: trials s)
  case 0
  then show ?case by simp
next
  case (Suc k)
  obtain r1 s1 where step:
    "finetune_embedding_model_one_step env (suggest env trials) s = (r1, s1)"
    by (cases "finetune_embedding_model_one_step env (suggest env trials) s") auto
  show ?case
  proof (cases r1)
    case (Inl e)
    with Suc.prems step show ?thesis by simp
  next
    case (Inr q)
    with Suc.prems step
    have "fmin env k (trials @ [(suggest env trials,
              objective_value (is_loss (tracker s1)) q)]) s1 = (None, trials', sk)" by simp
    from Suc.IH [OF this] step Inr show ?thesis by simp
  qed
qed

text \<open>
  \<open>fmin\<close> ends with the first evaluation that raises: the evaluations left of
  \<open>max_evals\<close> are not made.
\<close>

lemma fmin_stops:
  assumes pre: "fmin env k [] s = (None, trials, sk)"
    and p: "finetune_embedding_model_one_step env (suggest env trials) sk = (Inl e, s')"
  shows "fmin env (k + Suc m) [] s = (Some e, trials, s')"
    and "started s' = started s @ map fst trials @ [suggest env trials]"
    and "length trials = k"
proof -
  show "fmin env (k + Suc m) [] s = (Some e, trials, s')"
    unfolding fmin_add [OF pre] using p by simp
  show "started s' = started s @ map fst trials @ [suggest env trials]"
    using fmin_normal [OF pre] one_step_started(1) [OF p] by simp
  show "length trials = k"
    using fmin_normal [OF pre] by simp
qed

lemma after_try_done:
  assumes "os_remove_raises env = None" and "finish_session_raises env (tracker s) = None"
  shows "after_try env s
     = (None, \<lparr>tracker = finish_session (tracker s), initial_model_file = False,
               started = started s\<rparr>)"
  using assms
  by (simp add: after_try_def remove_initial_model_def leave_directory_def
      finish_session_stmt_def)

lemma finish_session_initial: "tuning_session (finish_session t) = Some Initial_name"
  by (simp add: finish_session_def split: option.splits prod.splits)

text \<open>
  The calls outside the \<open>try\<close> block are not guarded: an exception of
  \<open>get_top_params\<close> or \<open>set_session\<close> leaves the function before anything is tried,
  one of \<open>os.remove\<close> leaves it before \<open>finish_session\<close> is called, and one of
  \<open>finish_session\<close> leaves it with the session unfinished.
\<close>

lemma outside_try_errors_propagate:
  "get_top_params env tracker0 = Inl e \<Longrightarrow>
     finetune_embedding_model env session n tracker0
       = (Some e, \<lparr>tracker = tracker0, initial_model_file = False, started = []\<rparr>)"
  "get_top_params env tracker0 = Inr best_params \<Longrightarrow> set_session_raises env tracker0 = Some e \<Longrightarrow>
     finetune_embedding_model env session n tracker0
       = (Some e, \<lparr>tracker = tracker0, initial_model_file = False, started = []\<rparr>)"
  "get_top_params env tracker0 = Inr best_params \<Longrightarrow> set_session_raises env tracker0 = None \<Longrightarrow>
   try_body env best_params n
     \<lparr>tracker = set_session session tracker0, initial_model_file = False, started = []\<rparr>
     = (r, s) \<Longrightarrow>
   r \<noteq> Some KeyboardInterrupt \<Longrightarrow> initial_model_file s \<Longrightarrow> os_remove_raises env = Some e \<Longrightarrow>
     finetune_embedding_model env session n tracker0
       = (Some e, s\<lparr>initial_model_file := False\<rparr>)"
  "get_top_params env tracker0 = Inr best_params \<Longrightarrow> set_session_raises env tracker0 = None \<Longrightarrow>
   try_body env best_params n
     \<lparr>tracker = set_session session tracker0, initial_model_file = False, started = []\<rparr>
     = (r, s) \<Longrightarrow>
   r \<noteq> Some KeyboardInterrupt \<Longrightarrow> os_remove_raises env = None \<Longrightarrow>
   finish_session_raises env (tracker s) = Some e \<Longrightarrow>
     finetune_embedding_model env session n tracker0
       = (Some e, s\<lparr>initial_model_file := False\<rparr>)"
  by (cases r; simp add: finetune_embedding_model_def after_try_def remove_initial_model_def
      leave_directory_def finish_session_stmt_def is_Exception_def)+

lemma log_param_stmt_quiet: "fst (log_param_stmt kv s) \<noteq> Some KeyboardInterrupt"
  by (simp add: log_param_stmt_def log_param_def split: prod.splits)

lemma exec_quiet:
  assumes "\<And>c s. c \<in> set cs \<Longrightarrow> fst (c s) \<noteq> Some KeyboardInterrupt"
  shows "fst (exec cs s) \<noteq> Some KeyboardInterrupt"
  using assms
proof (induction cs arbitrary: s)
  case Nil
  show ?case by simp
next
  case (Cons c cs)
  obtain e s1 where c: "c s = (e, s1)" by (cases "c s") auto
  have "fst (c s) \<noteq> Some KeyboardInterrupt" using Cons.prems by simp
  with c have e: "e \<noteq> Some KeyboardInterrupt" by simp
  show ?case
  proof (cases e)
    case None
    then show ?thesis using c Cons.IH [of s1] Cons.prems by simp
  next
    case (Some x)
    then show ?thesis using c e by simp
  qed
qed

lemma set_run_quiet: "fst (set_run params s) \<noteq> Some KeyboardInterrupt"
proof -
  have ex: "\<And>kvs kvs' t. fst (exec (map log_param_stmt kvs @ map log_param_stmt kvs') t)
      \<noteq> Some KeyboardInterrupt"
    by (rule exec_quiet) (auto simp: log_param_stmt_quiet)
  show ?thesis
    unfolding set_run_def Let_def
    by (simp add: start_run_def ex split: option.splits sum.splits session_value.splits)
qed

lemma get_quality_quiet: "get_quality s \<noteq> Inl KeyboardInterrupt"
  by (simp add: get_quality_def Let_def)

lemma get_best_quality_quiet: "get_best_quality s \<noteq> Inl KeyboardInterrupt"
  by (simp add: get_best_quality_def get_best_quality'_def Let_def split: list.splits)

lemma upload_quiet: "fst (upload s) \<noteq> Some KeyboardInterrupt"
  by (simp add: upload_def log_param_def split: prod.splits)

lemma save_model_quiet: "fst (save_model b s) \<noteq> Some KeyboardInterrupt"
  using get_quality_quiet [of s] get_best_quality_quiet [of s] upload_quiet [of s]
  by (auto simp: save_model_def split: sum.splits)

lemma one_param_quiet:
  assumes "\<And>p t. fst (fit env p t) \<noteq> Some KeyboardInterrupt"
  shows "fst (fine_tune_embedding_model_one_param env p t) \<noteq> Inl KeyboardInterrupt"
proof -
  obtain e1 t1 where a: "set_run p t = (e1, t1)" by (cases "set_run p t") auto
  obtain e2 t2 where b: "fit env p t1 = (e2, t2)" by (cases "fit env p t1") auto
  obtain e3 t3 where c: "save_model True t2 = (e3, t3)" by (cases "save_model True t2") auto
  have "e1 \<noteq> Some KeyboardInterrupt" using set_run_quiet [of p t] a by simp
  moreover have "e2 \<noteq> Some KeyboardInterrupt" using assms [of p t1] b by simp
  moreover have "get_quality t2 \<noteq> Inl KeyboardInterrupt" by (rule get_quality_quiet)
  moreover have "e3 \<noteq> Some KeyboardInterrupt" using save_model_quiet [of True t2] c by simp
  ultimately show ?thesis
    unfolding fine_tune_embedding_model_one_param_def using a b c
    by (cases e1; cases e2; cases "get_quality t2"; cases e3) (simp_all add: is_Exception_def)
qed

lemma one_step_quiet:
  assumes "\<And>p t. fst (fit env p t) \<noteq> Some KeyboardInterrupt"
  shows "fst (finetune_embedding_model_one_step env p s) \<noteq> Inl KeyboardInterrupt"
  using one_param_quiet [OF assms, of p "tracker s"]
  by (cases "fine_tune_embedding_model_one_param env p (tracker s)")
     (simp add: finetune_embedding_model_one_step_def)

lemma for_best_params_quiet:
  assumes "\<And>p t. fst (fit env p t) \<noteq> Some KeyboardInterrupt"
  shows "fst (for_best_params env ps s) \<noteq> Some KeyboardInterrupt"
proof (induction ps arbitrary: s)
  case Nil
  show ?case by simp
next
  case (Cons p ps)
  obtain r1 s1 where step: "finetune_embedding_model_one_step env p s = (r1, s1)"
    by (cases "finetune_embedding_model_one_step env p s") auto
  with one_step_quiet [OF assms, of p s] have "r1 \<noteq> Inl KeyboardInterrupt" by simp
  then show ?case using step Cons.IH [of s1] by (cases r1) simp_all
qed

lemma fmin_quiet:
  assumes "\<And>p t. fst (fit env p t) \<noteq> Some KeyboardInterrupt"
  shows "fst (fmin env n trials s) \<noteq> Some KeyboardInterrupt"
proof (induction n arbitrary: trials s)
  case 0
  show ?case by simp
next
  case (Suc n)
  obtain r1 s1 where step:
    "finetune_embedding_model_one_step env (suggest env trials) s = (r1, s1)"
    by (cases "finetune_embedding_model_one_step env (suggest env trials) s") auto
  with one_step_quiet [OF assms, of "suggest env trials" s]
  have "r1 \<noteq> Inl KeyboardInterrupt" by simp
  then show ?case using step Suc.IH by (cases r1) simp_all
qed

lemma try_body_quiet:
  assumes "\<And>t. get_last_model env t \<noteq> Some KeyboardInterrupt"
    and "fst (torch_save env) \<noteq> Some KeyboardInterrupt"
    and "\<And>p t. fst (fit env p t) \<noteq> Some KeyboardInterrupt"
  shows "fst (try_body env best_params n s) \<noteq> Some KeyboardInterrupt"
proof -
  obtain e left where ts: "torch_save env = (e, left)" by (cases "torch_save env") auto
  with assms(2) have e: "e \<noteq> Some KeyboardInterrupt" by simp
  have f: "\<And>t. fst (case fmin env n [] t of (r, trials, s') \<Rightarrow> (r, s'))
      \<noteq> Some KeyboardInterrupt"
    using fmin_quiet [OF assms(3)] by (simp add: split_beta)
  show ?thesis
    unfolding try_body_def ts
    using assms(1) [of "tracker s"] e for_best_params_quiet [OF assms(3)] f
    by (cases "get_last_model env (tracker s)"; cases e) auto
qed

lemma try_body_loop:
  assumes "get_last_model env (tracker s) = None" and "fst (torch_save env) = None"
    and "ps \<noteq> []"
  shows "try_body env (Some ps) n s = for_best_params env ps (s\<lparr>initial_model_file := True\<rparr>)"
  using assms by (cases "torch_save env") (simp add: try_body_def)

lemma try_body_search:
  assumes "get_last_model env (tracker s) = None" and "fst (torch_save env) = None"
    and "best_params = None \<or> best_params = Some []"
    and "fmin env n [] (s\<lparr>initial_model_file := True\<rparr>) = (r, trials, s')"
  shows "try_body env best_params n s = (r, s')"
  using assms by (cases "torch_save env") (auto simp: try_body_def)

text \<open>
  Claim C9, as the code has it. Provided the calls outside the \<open>try\<close> block return
  (\<open>get_top_params\<close>, \<open>set_session\<close>, \<open>os.remove\<close>, \<open>finish_session\<close>) and nothing
  raises an exception outside the \<open>Exception\<close> class, \<open>finetune_embedding_model\<close>
  returns normally, the temporary model file does not exist afterwards, and
  \<open>finish_session\<close> has been executed on the tracker the \<open>try\<close> block left, which
  is then on the reserved initial session. The \<open>try\<close> block encloses the whole sweep:

    \<^item> in the loop over \<open>best_params\<close>, when the trials \<open>pre\<close> return and the next
      trial \<open>p\<close> raises, the trials started are \<open>pre\<close> and \<open>p\<close>, and none of the
      trials \<open>post\<close> after it; when every trial returns, all are started;

    \<^item> in the search, when \<open>k\<close> evaluations return and the next one raises, the
      trials started are these \<open>k + 1\<close>, and none of the \<open>m\<close> evaluations left.
\<close>

theorem finetune_embedding_model_outcome:
  assumes best: "get_top_params env tracker0 = Inr best_params"
    and o1: "set_session_raises env tracker0 = None"
    and o2: "os_remove_raises env = None"
    and o3: "\<forall>t. finish_session_raises env t = None"
    and q1: "\<forall>t. get_last_model env t \<noteq> Some KeyboardInterrupt"
    and q2: "fst (torch_save env) \<noteq> Some KeyboardInterrupt"
    and q3: "\<forall>p t. fst (fit env p t) \<noteq> Some KeyboardInterrupt"
    and s0: "s0 = \<lparr>tracker = set_session session tracker0, initial_model_file = False,
                   started = []\<rparr>"
    and res: "result = finetune_embedding_model env session n tracker0"
  shows "fst result = None
     \<and> \<not> initial_model_file (snd result)
     \<and> tuning_session (tracker (snd result)) = Some Initial_name
     \<and> tracker (snd result) = finish_session (tracker (snd (try_body env best_params n s0)))
     \<and> started (snd result) = started (snd (try_body env best_params n s0))
     \<and> (\<forall>pre p post sp e s'.
          best_params = Some (pre @ p # post)
          \<and> get_last_model env (tracker s0) = None \<and> fst (torch_save env) = None
          \<and> for_best_params env pre (s0\<lparr>initial_model_file := True\<rparr>) = (None, sp)
          \<and> finetune_embedding_model_one_step env p sp = (Inl e, s') \<longrightarrow>
          started (snd result) = pre @ [p]
          \<and> tracker (snd result) = finish_session (tracker s'))
     \<and> (\<forall>ps s'.
          best_params = Some ps \<and> ps \<noteq> []
          \<and> get_last_model env (tracker s0) = None \<and> fst (torch_save env) = None
          \<and> for_best_params env ps (s0\<lparr>initial_model_file := True\<rparr>) = (None, s') \<longrightarrow>
          started (snd result) = ps)
     \<and> (\<forall>k m trials sk e s'.
          (best_params = None \<or> best_params = Some []) \<and> n = k + Suc m
          \<and> get_last_model env (tracker s0) = None \<and> fst (torch_save env) = None
          \<and> fmin env k [] (s0\<lparr>initial_model_file := True\<rparr>) = (None, trials, sk)
          \<and> finetune_embedding_model_one_step env (suggest env trials) sk = (Inl e, s') \<longrightarrow>
          started (snd result) = map fst trials @ [suggest env trials]
          \<and> length (started (snd result)) = Suc k
          \<and> tracker (snd result) = finish_session (tracker s'))"
proof -
  obtain r s where body: "try_body env best_params n s0 = (r, s)"
    by (cases "try_body env best_params n s0") auto
  have "fst (try_body env best_params n s0) \<noteq> Some KeyboardInterrupt"
    using q1 q2 q3 by (intro try_body_quiet) simp_all
  with body have r: "r \<noteq> Some KeyboardInterrupt" by simp
  have fin: "after_try env s
     = (None, \<lparr>tracker = finish_session (tracker s), initial_model_file = False,
               started = started s\<rparr>)"
    using o2 o3 by (intro after_try_done) simp_all
  have "finetune_embedding_model env session n tracker0 = after_try env s"
    unfolding finetune_embedding_model_def best s0 [symmetric]
    using o1 body r by (cases r) (simp_all add: is_Exception_def)
  then have result: "result = (None, \<lparr>tracker = finish_session (tracker s),
      initial_model_file = False, started = started s\<rparr>)"
    unfolding res fin .
  have a: "fst result = None \<and> \<not> initial_model_file (snd result)
     \<and> tuning_session (tracker (snd result)) = Some Initial_name
     \<and> tracker (snd result) = finish_session (tracker (snd (try_body env best_params n s0)))
     \<and> started (snd result) = started (snd (try_body env best_params n s0))"
    unfolding result body by (simp add: finish_session_initial)
  have b: "\<forall>pre p post sp e s'.
          best_params = Some (pre @ p # post)
          \<and> get_last_model env (tracker s0) = None \<and> fst (torch_save env) = None
          \<and> for_best_params env pre (s0\<lparr>initial_model_file := True\<rparr>) = (None, sp)
          \<and> finetune_embedding_model_one_step env p sp = (Inl e, s') \<longrightarrow>
          started (snd result) = pre @ [p]
          \<and> tracker (snd result) = finish_session (tracker s')"
  proof (intro allI impI)
    fix pre p post sp e s'
    assume h: "best_params = Some (pre @ p # post)
          \<and> get_last_model env (tracker s0) = None \<and> fst (torch_save env) = None
          \<and> for_best_params env pre (s0\<lparr>initial_model_file := True\<rparr>) = (None, sp)
          \<and> finetune_embedding_model_one_step env p sp = (Inl e, s')"
    then have pre: "for_best_params env pre (s0\<lparr>initial_model_file := True\<rparr>) = (None, sp)"
      and p: "finetune_embedding_model_one_step env p sp = (Inl e, s')" by blast+
    note stop = for_best_params_stops(1) [OF pre p, of post] for_best_params_stops(2) [OF pre p]
    from h have "try_body env best_params n s0
        = for_best_params env (pre @ p # post) (s0\<lparr>initial_model_file := True\<rparr>)"
      using try_body_loop [of env s0 "pre @ p # post" n] by simp
    with body stop(1) have ss: "s = s'" by simp
    from stop(2) have "started s' = pre @ [p]" by (simp add: s0)
    then show "started (snd result) = pre @ [p]
          \<and> tracker (snd result) = finish_session (tracker s')"
      unfolding result ss by simp
  qed
  have c: "\<forall>ps s'.
          best_params = Some ps \<and> ps \<noteq> []
          \<and> get_last_model env (tracker s0) = None \<and> fst (torch_save env) = None
          \<and> for_best_params env ps (s0\<lparr>initial_model_file := True\<rparr>) = (None, s') \<longrightarrow>
          started (snd result) = ps"
  proof (intro allI impI)
    fix ps s'
    assume h: "best_params = Some ps \<and> ps \<noteq> []
          \<and> get_last_model env (tracker s0) = None \<and> fst (torch_save env) = None
          \<and> for_best_params env ps (s0\<lparr>initial_model_file := True\<rparr>) = (None, s')"
    then have loop: "for_best_params env ps (s0\<lparr>initial_model_file := True\<rparr>) = (None, s')"
      by blast
    from h have "try_body env best_params n s0
        = for_best_params env ps (s0\<lparr>initial_model_file := True\<rparr>)"
      using try_body_loop [of env s0 ps n] by simp
    with body loop have ss: "s = s'" by simp
    from for_best_params_normal [OF loop] have "started s' = ps" by (simp add: s0)
    then show "started (snd result) = ps"
      unfolding result ss by simp
  qed
  have d: "\<forall>k m trials sk e s'.
          (best_params = None \<or> best_params = Some []) \<and> n = k + Suc m
          \<and> get_last_model env (tracker s0) = None \<and> fst (torch_save env) = None
          \<and> fmin env k [] (s0\<lparr>initial_model_file := True\<rparr>) = (None, trials, sk)
          \<and> finetune_embedding_model_one_step env (suggest env trials) sk = (Inl e, s') \<longrightarrow>
          started (snd result) = map fst trials @ [suggest env trials]
          \<and> length (started (snd result)) = Suc k
          \<and> tracker (snd result) = finish_session (tracker s')"
  proof (intro allI impI)
    fix k m trials sk e s'
    assume h: "(best_params = None \<or> best_params = Some []) \<and> n = k + Suc m
          \<and> get_last_model env (tracker s0) = None \<and> fst (torch_save env) = None
          \<and> fmin env k [] (s0\<lparr>initial_model_file := True\<rparr>) = (None, trials, sk)
          \<and> finetune_embedding_model_one_step env (suggest env trials) sk = (Inl e, s')"
    then have pre: "fmin env k [] (s0\<lparr>initial_model_file := True\<rparr>) = (None, trials, sk)"
      and p: "finetune_embedding_model_one_step env (suggest env trials) sk = (Inl e, s')"
      and n: "n = k + Suc m" by blast+
    note stop = fmin_stops(1) [OF pre p, of m] fmin_stops(2,3) [OF pre p]
    from h have "try_body env best_params n s0 = (Some e, s')"
      using try_body_search [of env s0 best_params n "Some e" trials s'] stop(1) n by simp
    with body have ss: "s = s'" by simp
    from stop(2) have "started s' = map fst trials @ [suggest env trials]" by (simp add: s0)
    then show "started (snd result) = map fst trials @ [suggest env trials]
          \<and> length (started (snd result)) = Suc k
          \<and> tracker (snd result) = finish_session (tracker s')"
      unfolding result ss using stop(3) by simp
  qed
  from a b c d show ?thesis by blast
qed

lemma set_session1:
  "set_session session1 example_manager =
     \<lparr>main_metric = ''quality'', is_loss = False, accumulators = [[1 / 2]],
      experiment_handle = Some 1, tuning_session = Some (Session_object session1),
      tuning_session_id = Some 1, run = None, run_params = None, run_id = None,
      mlflow = \<lparr>experiments = [(''Default'', 0), (''iteration / one'', 1)], runs = [],
        active_run = None, active_experiment = Some 1\<rparr>\<rparr>"
  by (simp add: set_session_def example_manager_def example_server_def session1_def
      get_experiment_id_by_name_def create_experiment_def set_experiment_id_def fresh_def
      Let_def)

lemma first_trial:
  "finetune_embedding_model_one_step (training_environment best) params1 sweep1
   = (Inr (Some (1 / 2)), sweep2)"
  unfolding sweep1_def set_session1
  by (simp add: sweep2_def finetune_embedding_model_one_step_def
      fine_tune_embedding_model_one_param_def training_environment_def log_quality_def
      is_Exception_def set_run_def session1_def params1_def get_run_id_by_name_def
      start_run_def new_run_def fresh_def log_param_stmt_def log_param_def current_run_def
      update_run_def put_param_def convert_value_def get_quality_def save_model_def
      get_best_quality_def get_best_quality'_def search_runs_def has_column_def cell_def
      model_uploaded_def upload_def log_model_def finish_run_def end_run_def clear_def
      Let_def del: not_None_eq)

lemma second_trial:
  "fst (finetune_embedding_model_one_step (training_environment best) params2 sweep2)
   = Inl Exception"
  by (simp add: sweep2_def finetune_embedding_model_one_step_def
      fine_tune_embedding_model_one_param_def training_environment_def
      set_run_def session1_def params2_def get_run_id_by_name_def
      start_run_def new_run_def fresh_def log_param_stmt_def log_param_def current_run_def
      update_run_def put_param_def convert_value_def Let_def)

lemma training_facts:
  "get_top_params (training_environment best) t = Inr best"
  "set_session_raises (training_environment best) t = None"
  "os_remove_raises (training_environment best) = None"
  "\<forall>t. finish_session_raises (training_environment best) t = None"
  "\<forall>t. get_last_model (training_environment best) t \<noteq> Some KeyboardInterrupt"
  "fst (torch_save (training_environment best)) \<noteq> Some KeyboardInterrupt"
  "\<forall>p t. fst (fit (training_environment best) p t) \<noteq> Some KeyboardInterrupt"
  by (simp_all add: training_environment_def)

lemma training_more:
  "get_last_model (training_environment best) t = None"
  "fst (torch_save (training_environment best)) = None"
  "suggest (training_environment best) [] = params1"
  "suggest (training_environment best) [(params1, q)] = params2"
  "fst (fit (training_environment best) params3 t) = None"
  by (simp_all add: training_environment_def params3_def)

lemma failing_sweep:
  "fst (finetune_embedding_model failing_environment session1 100 example_manager) = None"
  "started (snd (finetune_embedding_model failing_environment session1 100 example_manager))
   = [params1]"
  by (simp_all add: finetune_embedding_model_def try_body_def after_try_def
      remove_initial_model_def leave_directory_def finish_session_stmt_def
      finetune_embedding_model_one_step_def fine_tune_embedding_model_one_param_def
      failing_environment_def is_Exception_def
      set_run_def set_session_def example_manager_def
      example_server_def session1_def params1_def params2_def get_experiment_id_by_name_def
      create_experiment_def set_experiment_id_def fresh_def get_run_id_by_name_def
      start_run_def new_run_def log_param_stmt_def log_param_def current_run_def
      update_run_def put_param_def convert_value_def Let_def)

text \<open>
  Claim C9 as stated fails: the sweep has the trials \<open>params1\<close> and \<open>params2\<close>,
  the first raises, the exception is suppressed, and \<open>params2\<close> is never started.
\<close>

theorem sweep_stops_at_failing_trial:
  "get_top_params failing_environment example_manager = Inr (Some [params1, params2])
   \<and> fst (fit failing_environment params2 example_manager) = None
   \<and> fst (finetune_embedding_model failing_environment session1 100 example_manager) = None
   \<and> started (snd (finetune_embedding_model failing_environment session1 100 example_manager))
       = [params1]"
  using failing_sweep by (simp add: failing_environment_def params2_def)

theorem finetune_embedding_model_outcome_witness:
  "fst (finetune_embedding_model (training_environment (Some [params1, params2, params3]))
          session1 100 example_manager) = None
   \<and> \<not> initial_model_file
         (snd (finetune_embedding_model (training_environment (Some [params1, params2, params3]))
                 session1 100 example_manager))
   \<and> tuning_session (tracker
         (snd (finetune_embedding_model (training_environment (Some [params1, params2, params3]))
                 session1 100 example_manager))) = Some Initial_name
   \<and> fst (fit (training_environment (Some [params1, params2, params3])) params3
            example_manager) = None
   \<and> started
         (snd (finetune_embedding_model (training_environment (Some [params1, params2, params3]))
                 session1 100 example_manager)) = [params1, params2]
   \<and> fst (finetune_embedding_model (training_environment None) session1 100 example_manager)
       = None
   \<and> tuning_session (tracker
         (snd (finetune_embedding_model (training_environment None) session1 100
                 example_manager))) = Some Initial_name
   \<and> started
         (snd (finetune_embedding_model (training_environment None) session1 100
                 example_manager)) = [params1, params2]
   \<and> length (started
         (snd (finetune_embedding_model (training_environment None) session1 100
                 example_manager))) = 2"
proof -
  let ?loop = "training_environment (Some [params1, params2, params3])"
  let ?search = "training_environment None"
  let ?s0 = "\<lparr>tracker = set_session session1 example_manager, initial_model_file = False,
              started = []\<rparr>"
  have s1: "?s0\<lparr>initial_model_file := True\<rparr> = sweep1" by (simp add: sweep1_def)
  note t1 = finetune_embedding_model_outcome [of "?loop" example_manager _ _ session1 _ 100,
      OF training_facts(1-7) refl refl]
  note t2 = finetune_embedding_model_outcome [of "?search" example_manager _ _ session1 _ 100,
      OF training_facts(1-7) refl refl]
  note t1_loop = t1 [THEN conjunct2, THEN conjunct2, THEN conjunct2, THEN conjunct2,
      THEN conjunct2, THEN conjunct1, rule_format]
  note t2_search = t2 [THEN conjunct2, THEN conjunct2, THEN conjunct2, THEN conjunct2,
      THEN conjunct2, THEN conjunct2, THEN conjunct2, rule_format]
  obtain s' where p: "finetune_embedding_model_one_step ?loop params2 sweep2
      = (Inl Exception, s')"
    using second_trial [of "Some [params1, params2, params3]"]
    by (cases "finetune_embedding_model_one_step ?loop params2 sweep2") auto
  have pre: "for_best_params ?loop [params1] (?s0\<lparr>initial_model_file := True\<rparr>)
      = (None, sweep2)"
    unfolding s1 by (simp add: first_trial)
  have h1: "Some [params1, params2, params3] = Some ([params1] @ params2 # [params3])
          \<and> get_last_model ?loop (tracker ?s0) = None \<and> fst (torch_save ?loop) = None
          \<and> for_best_params ?loop [params1] (?s0\<lparr>initial_model_file := True\<rparr>) = (None, sweep2)
          \<and> finetune_embedding_model_one_step ?loop params2 sweep2 = (Inl Exception, s')"
    using pre p by (simp add: training_more)
  have a: "started (snd (finetune_embedding_model ?loop session1 100 example_manager))
      = [params1, params2]"
    using t1_loop [OF h1] by simp
  obtain s'' where q: "finetune_embedding_model_one_step ?search params2 sweep2
      = (Inl Exception, s'')"
    using second_trial [of None]
    by (cases "finetune_embedding_model_one_step ?search params2 sweep2") auto
  have pre': "fmin ?search 1 [] (?s0\<lparr>initial_model_file := True\<rparr>)
      = (None, [(params1, Some (- (1 / 2)))], sweep2)"
    unfolding s1
    by (simp add: first_trial training_more objective_value_def sweep2_def)
  have h2: "((None :: fine_tuning_params list option) = None
            \<or> (None :: fine_tuning_params list option) = Some [])
          \<and> (100 :: nat) = 1 + Suc 98
          \<and> get_last_model ?search (tracker ?s0) = None \<and> fst (torch_save ?search) = None
          \<and> fmin ?search 1 [] (?s0\<lparr>initial_model_file := True\<rparr>)
              = (None, [(params1, Some (- (1 / 2)))], sweep2)
          \<and> finetune_embedding_model_one_step ?search
               (suggest ?search [(params1, Some (- (1 / 2)))]) sweep2 = (Inl Exception, s'')"
    using pre' q by (simp add: training_more)
  have b: "started (snd (finetune_embedding_model ?search session1 100 example_manager))
      = [params1, params2]"
    "length (started (snd (finetune_embedding_model ?search session1 100 example_manager)))
      = 2"
    using t2_search [OF h2] by (simp_all add: training_more)
  note c = t1 [THEN conjunct1] t1 [THEN conjunct2, THEN conjunct1]
    t1 [THEN conjunct2, THEN conjunct2, THEN conjunct1]
  note d = t2 [THEN conjunct1] t2 [THEN conjunct2, THEN conjunct2, THEN conjunct1]
  have e: "fst (fit ?loop params3 example_manager) = None"
    by (rule training_more)
  show ?thesis
    using a b c d e by (intro conjI)
qed

end
